theory Spec2Isabelle
  imports Main "HOL-Library.Sublist"
begin

section \<open>Python values used by \<^verbatim>\<open>tools.py\<close>\<close>

subsection \<open>Strings\<close>

text \<open>
  A Python \<^verbatim>\<open>str\<close> is a sequence of Unicode code points; \<^verbatim>\<open>len\<close>, slicing and
  \<^verbatim>\<open>strip\<close> count code points. The model is a list of code points, so the emoji of the
  report templates are one element each. \<open>str_lit\<close> embeds an ASCII literal.
\<close>

type_synonym pystr = "nat list"

definition str_lit :: "string \<Rightarrow> pystr" where
  "str_lit cs = map of_char cs"

text \<open>\<^verbatim>\<open>str.isspace\<close> of one code point: the whitespace table of CPython.\<close>

definition py_isspace :: "nat \<Rightarrow> bool" where
  "py_isspace c \<longleftrightarrow>
     (9 \<le> c \<and> c \<le> 13) \<or> (28 \<le> c \<and> c \<le> 32) \<or> c = 133 \<or> c = 160 \<or> c = 5760 \<or>
     (8192 \<le> c \<and> c \<le> 8202) \<or> c = 8232 \<or> c = 8233 \<or> c = 8239 \<or> c = 8287 \<or> c = 12288"

text \<open>\<^verbatim>\<open>s.strip()\<close>: leading and trailing whitespace removed.\<close>

definition py_strip :: "pystr \<Rightarrow> pystr" where
  "py_strip s = rev (dropWhile py_isspace (rev (dropWhile py_isspace s)))"

text \<open>
  \<^verbatim>\<open>s.upper()\<close> maps every code point by the full upper-case mapping of Unicode. The
  ASCII part is written out; the mapping of the other code points is the parameter \<open>tbl\<close>.
\<close>

definition upper_cp :: "(nat \<Rightarrow> pystr) \<Rightarrow> nat \<Rightarrow> pystr" where
  "upper_cp tbl c =
     (if c < 128 then (if 97 \<le> c \<and> c \<le> 122 then [c - 32] else [c]) else tbl c)"

definition py_upper :: "(nat \<Rightarrow> pystr) \<Rightarrow> pystr \<Rightarrow> pystr" where
  "py_upper tbl s = concat (map (upper_cp tbl) s)"

text \<open>\<^verbatim>\<open>str(n)\<close> and the f-string field \<^verbatim>\<open>{n}\<close> of an integer: decimal digits.\<close>

function str_nat :: "nat \<Rightarrow> pystr" where
  "str_nat n = (if n < 10 then [48 + n] else str_nat (n div 10) @ [48 + n mod 10])"
  by pat_completeness auto
termination
  by (relation "measure id") auto

declare str_nat.simps [simp del]

definition str_int :: "int \<Rightarrow> pystr" where
  "str_int i = (if i < 0 then 45 # str_nat (nat (- i)) else str_nat (nat i))"

text \<open>The f-string field \<^verbatim>\<open>{n:,}\<close>: decimal digits in groups of three, comma separated.\<close>

function comma_groups :: "pystr \<Rightarrow> pystr" where
  "comma_groups ds =
     (if length ds \<le> 3 then ds
      else comma_groups (take (length ds - 3) ds) @ 44 # drop (length ds - 3) ds)"
  by pat_completeness auto
termination
  by (relation "measure length") auto

declare comma_groups.simps [simp del]

definition format_comma :: "int \<Rightarrow> pystr" where
  "format_comma i =
     (if i < 0 then 45 # comma_groups (str_nat (nat (- i))) else comma_groups (str_nat (nat i)))"

text \<open>\<^verbatim>\<open>os.path.join(a, b)\<close> of \<^verbatim>\<open>posixpath\<close>, for two components.\<close>

definition path_join :: "pystr \<Rightarrow> pystr \<Rightarrow> pystr" where
  "path_join a b =
     (if b \<noteq> [] \<and> hd b = 47 then b
      else if a = [] \<or> last a = 47 then a @ b
      else a @ 47 # b)"

subsection \<open>Exceptions\<close>

text \<open>
  An instance of a subclass of \<^verbatim>\<open>Exception\<close>, the class both handlers of \<^verbatim>\<open>tools.py\<close>
  catch: its class name and the text \<^verbatim>\<open>str(e)\<close>.
\<close>

datatype py_exception = PyException (exc_type: pystr) (exc_str: pystr)

text \<open>
  What a call can raise: an instance of \<^verbatim>\<open>Exception\<close>, or an instance of another
  subclass of \<^verbatim>\<open>BaseException\<close> (\<^verbatim>\<open>KeyboardInterrupt\<close>, \<^verbatim>\<open>SystemExit\<close>,
  \<^verbatim>\<open>GeneratorExit\<close>), given by its class name and its text. The clause
  \<^verbatim>\<open>except Exception\<close> catches the first kind only.
\<close>

datatype py_raised = ExceptionInstance py_exception | BaseExceptionOnly pystr pystr

subsection \<open>Floats\<close>

text \<open>
  A Python \<^verbatim>\<open>float\<close> is an IEEE 754 binary64 number. \<open>Finite neg m e\<close> is
  \<open>(if neg then -1 else 1) * m * 2 ^ e\<close>, kept in the form binary64 stores: zero is
  \<open>Finite neg 0 0\<close>, a normal number has \<open>2 ^ 52 \<le> m < 2 ^ 53\<close>, a subnormal one has
  \<open>e = -1074\<close>.
\<close>

datatype pyfloat = Finite bool nat int | Infinity bool | NaN

function bit_length :: "nat \<Rightarrow> nat" where
  "bit_length n = (if n = 0 then 0 else Suc (bit_length (n div 2)))"
  by pat_completeness auto
termination
  by (relation "measure id") auto

declare bit_length.simps [simp del]

text \<open>The quotient \<open>num / den\<close> rounded to the nearest integer, ties to even.\<close>

definition rne_pick :: "nat \<Rightarrow> nat \<Rightarrow> nat \<Rightarrow> nat" where
  "rne_pick m0 r den = (if den < 2 * r \<or> (2 * r = den \<and> odd m0) then m0 + 1 else m0)"

definition rne_div :: "nat \<Rightarrow> nat \<Rightarrow> nat" where
  "rne_div num den = rne_pick (num div den) (num mod den) den"

text \<open>\<open>\<lfloor>log\<^sub>2 (p / q)\<rfloor>\<close> for positive \<open>p\<close> and \<open>q\<close>, from their bit lengths \<open>bp\<close> and \<open>bq\<close>.\<close>

definition floor_log2_bits :: "nat \<Rightarrow> nat \<Rightarrow> nat \<Rightarrow> nat \<Rightarrow> int" where
  "floor_log2_bits p q bp bq =
     (if q * 2 ^ (bp - bq) \<le> p * 2 ^ (bq - bp) then int bp - int bq else int bp - int bq - 1)"

definition floor_log2_ratio :: "nat \<Rightarrow> nat \<Rightarrow> int" where
  "floor_log2_ratio p q = floor_log2_bits p q (bit_length p) (bit_length q)"

text \<open>
  The exponent of the last mantissa bit of a binary64 number whose value lies in
  \<open>[2 ^ l, 2 ^ (l + 1))\<close>: 52 places below \<open>l\<close>, and never below \<open>-1074\<close> (subnormals).
\<close>

definition quantum :: "int \<Rightarrow> int" where
  "quantum l = max (l - 52) (- 1074)"

text \<open>
  A rounded mantissa \<open>m\<close> at exponent \<open>qe\<close> as a binary64 number: a mantissa that rounding
  carried to \<open>2 ^ 53\<close> moves up one exponent, and a value from \<open>2 ^ 1024\<close> on is infinite.
\<close>

definition pack_float :: "bool \<Rightarrow> nat \<Rightarrow> int \<Rightarrow> pyfloat" where
  "pack_float neg m qe =
     (if m = 0 then Finite neg 0 0
      else if m = 2 ^ 53 then (if 971 < qe + 1 then Infinity neg else Finite neg (2 ^ 52) (qe + 1))
      else if 971 < qe then Infinity neg
      else Finite neg m qe)"

definition round_at :: "bool \<Rightarrow> nat \<Rightarrow> nat \<Rightarrow> int \<Rightarrow> int \<Rightarrow> pyfloat" where
  "round_at neg p q k qe =
     pack_float neg (rne_div (p * 2 ^ nat (k - qe)) (q * 2 ^ nat (qe - k))) qe"

text \<open>
  The binary64 number nearest to \<open>p / q * 2 ^ k\<close> (ties to even), with the sign \<open>neg\<close>:
  53 bits of precision, gradual underflow below \<open>2 ^ -1022\<close>, infinity from \<open>2 ^ 1024\<close> on.
\<close>

definition round_float :: "bool \<Rightarrow> nat \<Rightarrow> nat \<Rightarrow> int \<Rightarrow> pyfloat" where
  "round_float neg p q k =
     (if p = 0 then Finite neg 0 0
      else round_at neg p q k (quantum (floor_log2_ratio p q + k)))"

text \<open>
  The float of a natural number: a literal with an integral value, such as \<^verbatim>\<open>5.00\<close>,
  or an \<^verbatim>\<open>int\<close> converted to a float.
\<close>

definition float_const :: "nat \<Rightarrow> pyfloat" where
  "float_const n = round_float False n 1 0"

text \<open>A decimal float literal, such as \<^verbatim>\<open>0.005\<close> for \<open>5 / 1000\<close>: the nearest binary64 number.\<close>

definition float_literal :: "nat \<Rightarrow> nat \<Rightarrow> pyfloat" where
  "float_literal p q = round_float False p q 0"

text \<open>\<^verbatim>\<open>a / b\<close> on two \<^verbatim>\<open>int\<close>s: the correctly rounded quotient, or an exception.\<close>

definition int_truediv :: "int \<Rightarrow> int \<Rightarrow> py_exception + pyfloat" where
  "int_truediv a b =
     (if b = 0 then Inl (PyException (str_lit ''ZeroDivisionError'') (str_lit ''division by zero''))
      else case round_float ((a < 0) \<noteq> (b < 0)) (nat \<bar>a\<bar>) (nat \<bar>b\<bar>) 0 of
             Infinity _ \<Rightarrow> Inl (PyException (str_lit ''OverflowError'')
                                 (str_lit ''integer division result too large for a float''))
           | r \<Rightarrow> Inr r)"

text \<open>\<^verbatim>\<open>x * y\<close> on two floats.\<close>

fun float_mul :: "pyfloat \<Rightarrow> pyfloat \<Rightarrow> pyfloat" where
  "float_mul NaN _ = NaN"
| "float_mul _ NaN = NaN"
| "float_mul (Infinity a) (Infinity b) = Infinity (a \<noteq> b)"
| "float_mul (Infinity a) (Finite b m e) = (if m = 0 then NaN else Infinity (a \<noteq> b))"
| "float_mul (Finite a m e) (Infinity b) = (if m = 0 then NaN else Infinity (a \<noteq> b))"
| "float_mul (Finite a m1 e1) (Finite b m2 e2) = round_float (a \<noteq> b) (m1 * m2) 1 (e1 + e2)"

text \<open>\<^verbatim>\<open>x + y\<close> on two floats: the exact sum \<open>s * 2 ^ e\<close> of two finite numbers is rounded.\<close>

definition signed :: "bool \<Rightarrow> nat \<Rightarrow> int" where
  "signed neg m = (if neg then - int m else int m)"

definition round_sum :: "bool \<Rightarrow> int \<Rightarrow> int \<Rightarrow> pyfloat" where
  "round_sum both_neg s e =
     (if s = 0 then Finite both_neg 0 0 else round_float (s < 0) (nat \<bar>s\<bar>) 1 e)"

fun float_add :: "pyfloat \<Rightarrow> pyfloat \<Rightarrow> pyfloat" where
  "float_add NaN _ = NaN"
| "float_add _ NaN = NaN"
| "float_add (Infinity a) (Infinity b) = (if a = b then Infinity a else NaN)"
| "float_add (Infinity a) (Finite b m e) = Infinity a"
| "float_add (Finite a m e) (Infinity b) = Infinity b"
| "float_add (Finite a m1 e1) (Finite b m2 e2) =
     round_sum (a \<and> b)
       (signed a m1 * 2 ^ nat (e1 - min e1 e2) + signed b m2 * 2 ^ nat (e2 - min e1 e2))
       (min e1 e2)"

text \<open>
  \<^verbatim>\<open>x / n\<close> of a float by an \<^verbatim>\<open>int\<close> that is a list length: \<open>n\<close> is converted to a
  float, and a zero divisor raises \<^verbatim>\<open>ZeroDivisionError\<close>.
\<close>

definition float_division_by_zero :: py_exception where
  "float_division_by_zero =
     PyException (str_lit ''ZeroDivisionError'') (str_lit ''float division by zero'')"

definition float_div_len :: "pyfloat \<Rightarrow> nat \<Rightarrow> py_exception + pyfloat" where
  "float_div_len x n =
     (if n = 0 then Inl float_division_by_zero
      else case float_const n of
             Finite b m2 e2 \<Rightarrow>
               (case x of
                  NaN \<Rightarrow> Inr NaN
                | Infinity a \<Rightarrow> Inr (Infinity (a \<noteq> b))
                | Finite a m1 e1 \<Rightarrow> Inr (round_float (a \<noteq> b) m1 m2 (e1 - e2)))
           | _ \<Rightarrow> Inl (PyException (str_lit ''OverflowError'')
                        (str_lit ''int too large to convert to float'')))"

text \<open>The f-string field \<^verbatim>\<open>{x:.4f}\<close>: the exact value rounded to four decimals, ties to even.\<close>

definition pad4 :: "pystr \<Rightarrow> pystr" where
  "pad4 ds = take (4 - length ds) [48, 48, 48, 48] @ ds"

definition fixed4 :: "bool \<Rightarrow> nat \<Rightarrow> pystr" where
  "fixed4 neg n =
     (if neg then [45] else []) @ str_nat (n div 10000) @ 46 # pad4 (str_nat (n mod 10000))"

definition format_4f :: "pyfloat \<Rightarrow> pystr" where
  "format_4f x =
     (case x of
        NaN \<Rightarrow> str_lit ''nan''
      | Infinity neg \<Rightarrow> (if neg then str_lit ''-inf'' else str_lit ''inf'')
      | Finite neg m e \<Rightarrow> fixed4 neg (rne_div (m * 10000 * 2 ^ nat e) (2 ^ nat (- e))))"

section \<open>The data of \<^verbatim>\<open>tools.py\<close>\<close>

subsection \<open>Requests\<close>

text \<open>The parameters of \<^verbatim>\<open>generate_image\<close>, in the order of its signature.\<close>

record generation_request =
  req_prompt :: pystr
  req_background :: pystr
  req_model :: pystr
  req_moderation :: pystr
  req_n :: int
  req_output_compression :: int
  req_output_format :: pystr
  req_quality :: pystr
  req_size :: pystr

text \<open>
  The untyped parameter \<^verbatim>\<open>image_files\<close> of \<^verbatim>\<open>edit_image\<close>: \<^verbatim>\<open>None\<close>, one path, or a
  list of paths.
\<close>

datatype image_files = NoFiles | OnePath pystr | PathList "pystr list"

text \<open>The parameters of \<^verbatim>\<open>edit_image\<close>; \<open>ed_mask_file\<close> is \<^verbatim>\<open>None\<close> or a path.\<close>

record edit_request =
  ed_image_files :: image_files
  ed_prompt :: pystr
  ed_background :: pystr
  ed_mask_file :: "pystr option"
  ed_model :: pystr
  ed_n :: int
  ed_quality :: pystr
  ed_size :: pystr

subsection \<open>Streams and the keyword arguments of the edit call\<close>

text \<open>A binary stream returned by \<^verbatim>\<open>open(path, "rb")\<close>: its identity and its path.\<close>

type_synonym stream = "nat \<times> pystr"

text \<open>The entry \<^verbatim>\<open>"image"\<close> of \<^verbatim>\<open>edit_params\<close>: one stream, or the list of streams.\<close>

datatype image_arg = OneStream stream | StreamList "stream list"

record edit_params =
  ep_model :: pystr
  ep_image :: image_arg
  ep_prompt :: pystr
  ep_background :: pystr
  ep_n :: int
  ep_quality :: pystr
  ep_size :: pystr
  ep_mask :: "stream option"

subsection \<open>Responses of the remote service\<close>

text \<open>
  The fields of the response that the code reads. The client library declares
  \<^verbatim>\<open>data\<close>, \<^verbatim>\<open>usage\<close> and \<^verbatim>\<open>b64_json\<close> optional, so each may be \<^verbatim>\<open>None\<close>.
\<close>

datatype image = Image (b64_json: "pystr option")

record token_details =
  text_tokens :: int
  image_tokens :: int

record usage =
  input_tokens_details :: token_details
  output_tokens :: int
  total_tokens :: int

record images_response =
  resp_created :: int
  resp_data :: "image list option"
  resp_usage :: "usage option"

subsection \<open>The environment\<close>

text \<open>
  Everything outside \<^verbatim>\<open>tools.py\<close> that a call depends on. An operation that can raise
  returns the exception (\<open>Some e\<close>, or \<open>Inl e\<close> where it has a result). The two remote
  calls are where a tool waits, for the network, and where an interrupt or an exit of the
  interpreter is delivered in this model: they can raise any \<open>py_raised\<close>. The other
  operations are modelled as raising instances of \<^verbatim>\<open>Exception\<close> only.
  \<^item> \<open>config_get\<close>: \<^verbatim>\<open>config.get(key)\<close> on the values loaded from \<^verbatim>\<open>.env\<close>;
  \<^item> \<open>openai_client\<close>: the constructor \<^verbatim>\<open>OpenAI(api_key=...)\<close>;
  \<^item> \<open>images_generate\<close>, \<open>images_edit\<close>: the two remote calls;
  \<^item> \<open>makedirs\<close>: \<^verbatim>\<open>os.makedirs(d, exist_ok=True)\<close>;
  \<^item> \<open>b64decode\<close>: \<^verbatim>\<open>base64.b64decode\<close> on a string;
  \<^item> \<open>open_wb\<close>, \<open>write_bytes\<close>, \<open>open_rb\<close>: opening a file for writing, writing to it,
    opening a file for reading;
  \<^item> \<open>strftime_local\<close>: \<^verbatim>\<open>datetime.fromtimestamp(t).strftime('%Y-%m-%d %H:%M:%S')\<close>, which
    depends on the local time zone;
  \<^item> \<open>unicode_upper\<close>: the upper-case mapping of the code points from 128 on.
\<close>

type_synonym bytes = "nat list"

record world =
  config_get :: "pystr \<Rightarrow> pystr option"
  openai_client :: "pystr \<Rightarrow> py_exception option"
  images_generate :: "generation_request \<Rightarrow> py_raised + images_response"
  images_edit :: "edit_params \<Rightarrow> py_raised + images_response"
  makedirs :: "pystr \<Rightarrow> py_exception option"
  b64decode :: "pystr \<Rightarrow> py_exception + bytes"
  open_wb :: "pystr \<Rightarrow> py_exception option"
  write_bytes :: "pystr \<Rightarrow> bytes \<Rightarrow> py_exception option"
  open_rb :: "pystr \<Rightarrow> py_exception option"
  strftime_local :: "int \<Rightarrow> py_exception + pystr"
  unicode_upper :: "nat \<Rightarrow> pystr"

subsection \<open>The observable state\<close>

text \<open>
  What a call changes: the calls made to the remote service, the streams opened for
  reading and not yet closed, the files written and the directories created.
\<close>

datatype remote_call = GenerateCall generation_request | EditCall edit_params

record state =
  remote_calls :: "remote_call list"
  open_streams :: "stream list"
  next_stream :: nat
  files :: "pystr \<Rightarrow> bytes option"
  directories :: "pystr list"

text \<open>
  The outcome of a piece of code: an exception raised, or the value returned. Code that
  contains no remote call raises instances of \<^verbatim>\<open>Exception\<close> only (\<open>outcome\<close>); code
  that contains one can raise anything (\<open>raising\<close>).
\<close>

type_synonym 'a outcome = "py_exception + 'a"

type_synonym 'a raising = "py_raised + 'a"

text \<open>An exception of a callee propagates unchanged through the caller.\<close>

definition propagate :: "state \<times> 'a outcome \<Rightarrow> state \<times> 'a raising" where
  "propagate r =
     (case r of
        (s, Inl e) \<Rightarrow> (s, Inl (ExceptionInstance e))
      | (s, Inr x) \<Rightarrow> (s, Inr x))"

type_synonym tool_result = "pystr list \<times> pystr"

section \<open>\<^verbatim>\<open>generate_image\<close>\<close>

subsection \<open>Messages\<close>

text \<open>The two validation messages; \<open>10060\<close> is the cross mark of the source text.\<close>

definition prompt_empty_error :: pystr where
  "prompt_empty_error = 10060 # str_lit '' **Error:** Prompt cannot be empty.''"

definition api_key_error :: pystr where
  "api_key_error =
     10060 # str_lit '' **Error:** OpenAI API key not found in environment variables.''"

text \<open>The report of the handler \<^verbatim>\<open>except Exception as e\<close> (\<^verbatim>\<open>error_info\<close>).\<close>

definition generation_failed :: "py_exception \<Rightarrow> pystr" where
  "generation_failed e = concat
     [str_lit ''## '', [10060], str_lit '' Generation Failed'', [10],
      [10],
      str_lit ''**Error:** '', exc_str e, [10],
      [10],
      str_lit ''**Troubleshooting:**'', [10],
      str_lit ''- Verify OpenAI API key is valid'', [10],
      str_lit ''- Check prompt length (max 32,000 characters)'', [10],
      str_lit ''- Ensure sufficient API credits'', [10],
      str_lit ''- Try different quality/size settings'', [10]]"

subsection \<open>Saving the images\<close>

text \<open>The key looked up in the configuration and the output directory.\<close>

definition api_key_name :: pystr where
  "api_key_name = str_lit ''OPENAI_API_KEY''"

definition output_dir :: pystr where
  "output_dir = str_lit ''generated_images''"

text \<open>\<^verbatim>\<open>extension = "jpg" if output_format == "jpeg" else output_format\<close>\<close>

definition extension :: "pystr \<Rightarrow> pystr" where
  "extension output_format =
     (if output_format = str_lit ''jpeg'' then str_lit ''jpg'' else output_format)"

text \<open>\<^verbatim>\<open>f"generated_{created_timestamp}_{i+1}.{extension}"\<close>\<close>

definition generated_filename :: "int \<Rightarrow> pystr \<Rightarrow> nat \<Rightarrow> pystr" where
  "generated_filename created_timestamp ext i =
     str_lit ''generated_'' @ str_int created_timestamp @ str_lit ''_'' @ str_nat (i + 1) @
     str_lit ''.'' @ ext"

text \<open>
  \<^verbatim>\<open>with open(filepath, "wb") as f: f.write(image_bytes)\<close>. Opening creates or empties
  the file; the \<^verbatim>\<open>with\<close> block closes \<open>f\<close> on every path, so the stream is not recorded
  in the state.
\<close>

definition write_file :: "world \<Rightarrow> pystr \<Rightarrow> bytes \<Rightarrow> state \<Rightarrow> state \<times> py_exception option" where
  "write_file w filepath image_bytes s =
     (case open_wb w filepath of
        Some e \<Rightarrow> (s, Some e)
      | None \<Rightarrow>
          (case write_bytes w filepath image_bytes of
             Some e \<Rightarrow> (s\<lparr>files := (files s)(filepath \<mapsto> [])\<rparr>, Some e)
           | None \<Rightarrow> (s\<lparr>files := (files s)(filepath \<mapsto> image_bytes)\<rparr>, None)))"

text \<open>\<^verbatim>\<open>base64.b64decode(image_data.b64_json)\<close>; \<^verbatim>\<open>None\<close> is not a valid argument.\<close>

definition decode_image :: "world \<Rightarrow> image \<Rightarrow> bytes outcome" where
  "decode_image w image_data =
     (case b64_json image_data of
        None \<Rightarrow> Inl (PyException (str_lit ''TypeError'')
                 (str_lit ''argument should be a bytes-like object or ASCII string, not '' @
                  39 # str_lit ''NoneType'' @ [39]))
      | Some b \<Rightarrow> b64decode w b)"

text \<open>
  The loop \<^verbatim>\<open>for i, image_data in enumerate(response.data)\<close> of both tools, from index
  \<open>i\<close> on; \<open>filename\<close> is the f-string of the tool and \<open>image_paths\<close> the list built so far.
  An exception leaves the loop with the files written before it in place.
\<close>

fun save_images ::
  "world \<Rightarrow> (nat \<Rightarrow> pystr) \<Rightarrow> nat \<Rightarrow> image list \<Rightarrow> pystr list \<Rightarrow> state \<Rightarrow>
   state \<times> pystr list outcome" where
  "save_images w filename i [] image_paths s = (s, Inr image_paths)"
| "save_images w filename i (image_data # rest) image_paths s =
     (case decode_image w image_data of
        Inl e \<Rightarrow> (s, Inl e)
      | Inr image_bytes \<Rightarrow>
          (case write_file w (path_join output_dir (filename i)) image_bytes s of
             (s', Some e) \<Rightarrow> (s', Inl e)
           | (s', None) \<Rightarrow>
               save_images w filename (i + 1) rest
                 (image_paths @ [path_join output_dir (filename i)]) s'))"

text \<open>
  \<^verbatim>\<open>os.makedirs("generated_images", exist_ok=True)\<close> followed by the loop over
  \<^verbatim>\<open>response.data\<close>; iterating over \<^verbatim>\<open>None\<close> raises.
\<close>

definition save_all ::
  "world \<Rightarrow> (nat \<Rightarrow> pystr) \<Rightarrow> images_response \<Rightarrow> state \<Rightarrow> state \<times> pystr list outcome" where
  "save_all w filename response s =
     (case makedirs w output_dir of
        Some e \<Rightarrow> (s, Inl e)
      | None \<Rightarrow>
          (case resp_data response of
             None \<Rightarrow> (s\<lparr>directories := output_dir # directories s\<rparr>,
                       Inl (PyException (str_lit ''TypeError'')
                         (39 # str_lit ''NoneType'' @ 39 # str_lit '' object is not iterable'')))
           | Some images \<Rightarrow>
               save_images w filename 0 images [] (s\<lparr>directories := output_dir # directories s\<rparr>)))"

subsection \<open>Costs\<close>

record cost_breakdown =
  input_cost :: pyfloat
  output_cost :: pyfloat
  total_cost :: pyfloat

text \<open>\<^verbatim>\<open>(tokens / 1_000_000) * rate\<close> with an \<^verbatim>\<open>int\<close> count and a float literal rate.\<close>

definition token_cost :: "int \<Rightarrow> nat \<Rightarrow> pyfloat outcome" where
  "token_cost tokens rate =
     (case int_truediv tokens 1000000 of
        Inl e \<Rightarrow> Inl e
      | Inr per_million \<Rightarrow> Inr (float_mul per_million (float_const rate)))"

definition sum_costs :: "pyfloat \<Rightarrow> pyfloat \<Rightarrow> cost_breakdown" where
  "sum_costs i_cost o_cost =
     \<lparr>input_cost = i_cost, output_cost = o_cost, total_cost = float_add i_cost o_cost\<rparr>"

text \<open>
  Lines 118 to 120:
  \<^verbatim>\<open>input_cost = (text_tokens / 1_000_000) * 5.00\<close>,
  \<^verbatim>\<open>output_cost = (usage.output_tokens / 1_000_000) * 40.00\<close>,
  \<^verbatim>\<open>total_cost = input_cost + output_cost\<close>.
\<close>

definition generate_costs :: "usage \<Rightarrow> cost_breakdown outcome" where
  "generate_costs u =
     (case token_cost (text_tokens (input_tokens_details u)) 5 of
        Inl e \<Rightarrow> Inl e
      | Inr i_cost \<Rightarrow>
          (case token_cost (output_tokens u) 40 of
             Inl e \<Rightarrow> Inl e
           | Inr o_cost \<Rightarrow> Inr (sum_costs i_cost o_cost)))"

subsection \<open>The report\<close>

text \<open>\<^verbatim>\<open>prompt[:300]\<close> followed by \<^verbatim>\<open>'...' if len(prompt) > 300 else ''\<close>.\<close>

definition prompt_echo :: "pystr \<Rightarrow> pystr" where
  "prompt_echo prompt = take 300 prompt @ (if 300 < length prompt then str_lit ''...'' else [])"

text \<open>The four lines under \<^verbatim>\<open>Token Usage\<close>, the second with the label of the tool.\<close>

definition token_lines :: "pystr \<Rightarrow> usage \<Rightarrow> pystr" where
  "token_lines image_label u = concat
     [str_lit ''- **Text Tokens:** '', format_comma (text_tokens (input_tokens_details u)), [10],
      str_lit ''- **'', image_label, str_lit '':** '',
        format_comma (image_tokens (input_tokens_details u)), [10],
      str_lit ''- **Output Tokens:** '', format_comma (output_tokens u), [10],
      str_lit ''- **Total Tokens:** '', format_comma (total_tokens u), [10]]"

text \<open>
  The four lines under \<^verbatim>\<open>Cost Breakdown\<close>; \<open>input_note\<close> is the text the edit report
  puts after the input cost, \<open>image_label\<close> the word after \<^verbatim>\<open>Cost per\<close>.
\<close>

definition cost_lines :: "pystr \<Rightarrow> pystr \<Rightarrow> cost_breakdown \<Rightarrow> pyfloat \<Rightarrow> pystr" where
  "cost_lines input_note image_label c per_image = concat
     [str_lit ''- **Input Cost:** $'', format_4f (input_cost c), input_note, [10],
      str_lit ''- **Output Cost:** $'', format_4f (output_cost c), [10],
      str_lit ''- **Total Cost:** $'', format_4f (total_cost c), [10],
      str_lit ''- **Cost per '', image_label, str_lit '':** $'', format_4f per_image, [10]]"

text \<open>
  The f-string \<^verbatim>\<open>generation_info\<close>, with \<open>count\<close> for \<^verbatim>\<open>len(image_paths)\<close>,
  \<open>created_str\<close> for the formatted creation time and \<open>per_image\<close> for
  \<^verbatim>\<open>total_cost/len(image_paths)\<close>. The code points above 127 are the emoji of the source.
\<close>

definition generation_info ::
  "world \<Rightarrow> generation_request \<Rightarrow> nat \<Rightarrow> pystr \<Rightarrow> usage \<Rightarrow> cost_breakdown \<Rightarrow> pyfloat \<Rightarrow> pystr" where
  "generation_info w req count created_str u c per_image = concat
     [str_lit ''## '', [9989], str_lit '' Images Generated Successfully!'', [10],
      [10],
      str_lit ''### '', [128202], str_lit '' Generation Details'', [10],
      str_lit ''- **Model:** '', req_model req, [10],
      str_lit ''- **Images Created:** '', str_nat count, [10],
      str_lit ''- **Quality:** '', req_quality req, [10],
      str_lit ''- **Size:** '', req_size req, str_lit '' '', [10],
      str_lit ''- **Format:** '', py_upper (unicode_upper w) (req_output_format req), [10],
      str_lit ''- **Background:** '', req_background req, [10],
      str_lit ''- **Compression:** '', str_int (req_output_compression req), str_lit ''%'', [10],
      str_lit ''- **Created:** '', created_str, [10],
      [10],
      str_lit ''### '', [128290], str_lit '' Token Usage'', [10],
      token_lines (str_lit ''Image Tokens'') u,
      [10],
      str_lit ''### '', [128176], str_lit '' Cost Breakdown'', [10],
      cost_lines [] (str_lit ''Image'') c per_image,
      [10],
      str_lit ''### '', [128221], str_lit '' Prompt'', [10],
      [34], prompt_echo (req_prompt req), [34], [10]]"

text \<open>Reading an attribute of \<^verbatim>\<open>response.usage\<close> when it is \<^verbatim>\<open>None\<close>.\<close>

definition usage_none_error :: py_exception where
  "usage_none_error = PyException (str_lit ''AttributeError'')
     (39 # str_lit ''NoneType'' @ 39 # str_lit '' object has no attribute '' @
      39 # str_lit ''input_tokens_details'' @ [39])"

text \<open>
  Lines 114 to 151: the costs, then the f-string, whose fields are evaluated in order
  (the creation time before the cost per image), then the \<^verbatim>\<open>return\<close>.
\<close>

definition generate_report ::
  "world \<Rightarrow> generation_request \<Rightarrow> images_response \<Rightarrow> pystr list \<Rightarrow> tool_result outcome" where
  "generate_report w req response image_paths =
     (case resp_usage response of
        None \<Rightarrow> Inl usage_none_error
      | Some u \<Rightarrow>
          (case generate_costs u of
             Inl e \<Rightarrow> Inl e
           | Inr c \<Rightarrow>
               (case strftime_local w (resp_created response) of
                  Inl e \<Rightarrow> Inl e
                | Inr created_str \<Rightarrow>
                    (case float_div_len (total_cost c) (length image_paths) of
                       Inl e \<Rightarrow> Inl e
                     | Inr per_image \<Rightarrow>
                         Inr (image_paths,
                              generation_info w req (length image_paths) created_str u c
                                per_image)))))"

subsection \<open>The tool\<close>

text \<open>Lines 93 to 151: what follows the remote call.\<close>

definition generate_store ::
  "world \<Rightarrow> generation_request \<Rightarrow> images_response \<Rightarrow> state \<Rightarrow> state \<times> tool_result outcome" where
  "generate_store w req response s =
     (case save_all w
             (generated_filename (resp_created response) (extension (req_output_format req)))
             response s of
        (s', Inl e) \<Rightarrow> (s', Inl e)
      | (s', Inr image_paths) \<Rightarrow> (s', generate_report w req response image_paths))"

text \<open>Lines 78 to 91: the client and the remote call, which passes every parameter on.\<close>

definition generate_call ::
  "world \<Rightarrow> generation_request \<Rightarrow> pystr \<Rightarrow> state \<Rightarrow> state \<times> tool_result raising" where
  "generate_call w req api_key s =
     (case openai_client w api_key of
        Some e \<Rightarrow> (s, Inl (ExceptionInstance e))
      | None \<Rightarrow>
          (case images_generate w req of
             Inl x \<Rightarrow> (s\<lparr>remote_calls := remote_calls s @ [GenerateCall req]\<rparr>, Inl x)
           | Inr response \<Rightarrow>
               propagate
                 (generate_store w req response
                    (s\<lparr>remote_calls := remote_calls s @ [GenerateCall req]\<rparr>))))"

text \<open>
  The body of the \<^verbatim>\<open>try\<close> block. \<^verbatim>\<open>not prompt.strip()\<close> holds for the empty string,
  \<^verbatim>\<open>not api_key\<close> for \<^verbatim>\<open>None\<close> and for the empty string.
\<close>

definition generate_image_try ::
  "world \<Rightarrow> generation_request \<Rightarrow> state \<Rightarrow> state \<times> tool_result raising" where
  "generate_image_try w req s =
     (if py_strip (req_prompt req) = [] then (s, Inr ([], prompt_empty_error))
      else case config_get w api_key_name of
             None \<Rightarrow> (s, Inr ([], api_key_error))
           | Some api_key \<Rightarrow>
               if api_key = [] then (s, Inr ([], api_key_error))
               else generate_call w req api_key s)"

text \<open>
  The function: the \<^verbatim>\<open>try\<close> body under the handler \<^verbatim>\<open>except Exception as e\<close>. The
  handler returns the failure report for an instance of \<^verbatim>\<open>Exception\<close>; anything else
  that the body raises leaves the function and reaches the caller.
\<close>

definition generate_image ::
  "world \<Rightarrow> generation_request \<Rightarrow> state \<Rightarrow> state \<times> tool_result raising" where
  "generate_image w req s =
     (case generate_image_try w req s of
        (s', Inl (ExceptionInstance e)) \<Rightarrow> (s', Inr ([], generation_failed e))
      | (s', Inl (BaseExceptionOnly t m)) \<Rightarrow> (s', Inl (BaseExceptionOnly t m))
      | (s', Inr r) \<Rightarrow> (s', Inr r))"

section \<open>\<^verbatim>\<open>edit_image\<close>\<close>

subsection \<open>Messages\<close>

definition upload_error :: pystr where
  "upload_error = 10060 # str_lit '' **Error:** Please upload at least one image file.''"

definition edit_prompt_empty_error :: pystr where
  "edit_prompt_empty_error = 10060 # str_lit '' **Error:** Edit prompt cannot be empty.''"

definition edit_failed :: "py_exception \<Rightarrow> pystr" where
  "edit_failed e = concat
     [str_lit ''## '', [10060], str_lit '' Edit Failed'', [10],
      [10],
      str_lit ''**Error:** '', exc_str e, [10],
      [10],
      str_lit ''**Troubleshooting:**'', [10],
      str_lit ''- Ensure images are PNG, JPEG, or WebP format'', [10],
      str_lit ''- Check file sizes (max 50MB per image)'', [10],
      str_lit ''- Verify mask has alpha channel and matches image dimensions'', [10],
      str_lit ''- Try simpler edit instructions'', [10],
      str_lit ''- Reduce number of input images'', [10]]"

subsection \<open>Streams\<close>

text \<open>\<^verbatim>\<open>open(path, "rb")\<close>: a new stream, open until it is closed.\<close>

definition open_stream :: "world \<Rightarrow> pystr \<Rightarrow> state \<Rightarrow> state \<times> stream outcome" where
  "open_stream w path s =
     (case open_rb w path of
        Some e \<Rightarrow> (s, Inl e)
      | None \<Rightarrow>
          (s\<lparr>open_streams := open_streams s @ [(next_stream s, path)],
             next_stream := next_stream s + 1\<rparr>,
           Inr (next_stream s, path)))"

text \<open>
  \<^verbatim>\<open>[open(img_path, "rb") for img_path in image_files]\<close>: an exception ends the
  comprehension and the streams opened before it stay open.
\<close>

fun open_all :: "world \<Rightarrow> pystr list \<Rightarrow> stream list \<Rightarrow> state \<Rightarrow> state \<times> stream list outcome" where
  "open_all w [] images s = (s, Inr images)"
| "open_all w (img_path # rest) images s =
     (case open_stream w img_path s of
        (s', Inl e) \<Rightarrow> (s', Inl e)
      | (s', Inr f) \<Rightarrow> open_all w rest (images @ [f]) s')"

text \<open>\<^verbatim>\<open>f.close()\<close>, and the loop \<^verbatim>\<open>for img in images: img.close()\<close>.\<close>

definition close_stream :: "stream \<Rightarrow> state \<Rightarrow> state" where
  "close_stream f s = s\<lparr>open_streams := removeAll f (open_streams s)\<rparr>"

definition close_all :: "stream list \<Rightarrow> state \<Rightarrow> state" where
  "close_all images s = fold close_stream images s"

definition close_mask :: "stream option \<Rightarrow> state \<Rightarrow> state" where
  "close_mask mask_stream s = (case mask_stream of None \<Rightarrow> s | Some f \<Rightarrow> close_stream f s)"

text \<open>
  Lines 236 to 243: \<open>images\<close> and \<open>image_count\<close>. The \<^verbatim>\<open>else\<close> branch iterates over
  \<^verbatim>\<open>image_files\<close>; \<^verbatim>\<open>None\<close> has returned before and would not be iterable.
\<close>

definition prepare_images ::
  "world \<Rightarrow> image_files \<Rightarrow> state \<Rightarrow> state \<times> (stream list \<times> nat) outcome" where
  "prepare_images w image_files s =
     (case image_files of
        OnePath path \<Rightarrow>
          (case open_stream w path s of
             (s', Inl e) \<Rightarrow> (s', Inl e)
           | (s', Inr f) \<Rightarrow> (s', Inr ([f], 1)))
      | PathList paths \<Rightarrow>
          (case open_all w paths [] s of
             (s', Inl e) \<Rightarrow> (s', Inl e)
           | (s', Inr images) \<Rightarrow> (s', Inr (images, length images)))
      | NoFiles \<Rightarrow>
          (s, Inl (PyException (str_lit ''TypeError'')
                (39 # str_lit ''NoneType'' @ 39 # str_lit '' object is not iterable''))))"

text \<open>\<^verbatim>\<open>images if image_count > 1 else images[0]\<close>; indexing an empty list raises.\<close>

definition image_argument :: "stream list \<Rightarrow> nat \<Rightarrow> image_arg outcome" where
  "image_argument images image_count =
     (if 1 < image_count then Inr (StreamList images)
      else case images of
             [] \<Rightarrow> Inl (PyException (str_lit ''IndexError'') (str_lit ''list index out of range''))
           | f # _ \<Rightarrow> Inr (OneStream f))"

subsection \<open>Costs and report\<close>

text \<open>
  Lines 293 to 295:
  \<^verbatim>\<open>input_cost = (text_tokens / 1_000_000) * 5.00 + (image_tokens / 1_000_000) * 10.00\<close>,
  \<^verbatim>\<open>output_cost = (usage.output_tokens / 1_000_000) * 40.00\<close>,
  \<^verbatim>\<open>total_cost = input_cost + output_cost\<close>.
\<close>

definition edit_costs :: "usage \<Rightarrow> cost_breakdown outcome" where
  "edit_costs u =
     (case token_cost (text_tokens (input_tokens_details u)) 5 of
        Inl e \<Rightarrow> Inl e
      | Inr text_cost \<Rightarrow>
          (case token_cost (image_tokens (input_tokens_details u)) 10 of
             Inl e \<Rightarrow> Inl e
           | Inr image_cost \<Rightarrow>
               (case token_cost (output_tokens u) 40 of
                  Inl e \<Rightarrow> Inl e
                | Inr o_cost \<Rightarrow> Inr (sum_costs (float_add text_cost image_cost) o_cost))))"

text \<open>\<^verbatim>\<open>if mask_file:\<close> holds for a path that is not the empty string.\<close>

definition mask_given :: "pystr option \<Rightarrow> bool" where
  "mask_given mask_file = (case mask_file of None \<Rightarrow> False | Some path \<Rightarrow> path \<noteq> [])"

text \<open>The f-string \<^verbatim>\<open>edit_info\<close>, with the conventions of \<open>generation_info\<close>.\<close>

definition edit_info ::
  "edit_request \<Rightarrow> nat \<Rightarrow> nat \<Rightarrow> pystr \<Rightarrow> usage \<Rightarrow> cost_breakdown \<Rightarrow> pyfloat \<Rightarrow> pystr" where
  "edit_info req image_count count created_str u c per_image = concat
     [str_lit ''## '', [9989], str_lit '' Images Edited Successfully!'', [10],
      [10],
      str_lit ''### '', [128202], str_lit '' Edit Details'', [10],
      str_lit ''- **Model:** '', ed_model req, [10],
      str_lit ''- **Input Images:** '', str_nat image_count, [10],
      str_lit ''- **Output Images:** '', str_nat count, [10],
      str_lit ''- **Quality:** '', ed_quality req, [10],
      str_lit ''- **Size:** '', ed_size req, [10],
      str_lit ''- **Background:** '', ed_background req, [10],
      str_lit ''- **Mask Applied:** '',
        (if mask_given (ed_mask_file req) then str_lit ''Yes'' else str_lit ''No''), [10],
      str_lit ''- **Created:** '', created_str, [10],
      [10],
      str_lit ''### '', [128290], str_lit '' Token Usage'', [10],
      token_lines (str_lit ''Input Image Tokens'') u,
      [10],
      str_lit ''### '', [128176], str_lit '' Cost Breakdown'', [10],
      cost_lines (str_lit '' (text + images)'') (str_lit ''Output Image'') c per_image,
      [10],
      str_lit ''### '', [128221], str_lit '' Edit Instructions'', [10],
      [34], prompt_echo (ed_prompt req), [34], [10]]"

text \<open>Lines 289 to 326.\<close>

definition edit_report ::
  "world \<Rightarrow> edit_request \<Rightarrow> nat \<Rightarrow> images_response \<Rightarrow> pystr list \<Rightarrow> tool_result outcome" where
  "edit_report w req image_count response image_paths =
     (case resp_usage response of
        None \<Rightarrow> Inl usage_none_error
      | Some u \<Rightarrow>
          (case edit_costs u of
             Inl e \<Rightarrow> Inl e
           | Inr c \<Rightarrow>
               (case strftime_local w (resp_created response) of
                  Inl e \<Rightarrow> Inl e
                | Inr created_str \<Rightarrow>
                    (case float_div_len (total_cost c) (length image_paths) of
                       Inl e \<Rightarrow> Inl e
                     | Inr per_image \<Rightarrow>
                         Inr (image_paths,
                              edit_info req image_count (length image_paths) created_str u c
                                per_image)))))"

subsection \<open>The tool\<close>

text \<open>\<^verbatim>\<open>f"edited_{created_timestamp}_{i+1}.png"\<close>\<close>

definition edited_filename :: "int \<Rightarrow> nat \<Rightarrow> pystr" where
  "edited_filename created_timestamp i =
     str_lit ''edited_'' @ str_int created_timestamp @ str_lit ''_'' @ str_nat (i + 1) @
     str_lit ''.png''"

text \<open>Lines 269 to 326: what follows the closing of the streams.\<close>

definition edit_store ::
  "world \<Rightarrow> edit_request \<Rightarrow> nat \<Rightarrow> images_response \<Rightarrow> state \<Rightarrow> state \<times> tool_result outcome" where
  "edit_store w req image_count response s =
     (case save_all w (edited_filename (resp_created response)) response s of
        (s', Inl e) \<Rightarrow> (s', Inl e)
      | (s', Inr image_paths) \<Rightarrow> (s', edit_report w req image_count response image_paths))"

text \<open>
  Lines 260 to 267: the remote call, and after it the closing of the image streams and of
  the mask stream. An exception of the call leaves the \<^verbatim>\<open>try\<close> body before the closing.
\<close>

definition edit_call ::
  "world \<Rightarrow> edit_request \<Rightarrow> stream list \<Rightarrow> nat \<Rightarrow> edit_params \<Rightarrow> state \<Rightarrow>
   state \<times> tool_result raising" where
  "edit_call w req images image_count params s =
     (case images_edit w params of
        Inl x \<Rightarrow> (s\<lparr>remote_calls := remote_calls s @ [EditCall params]\<rparr>, Inl x)
      | Inr response \<Rightarrow>
          propagate
            (edit_store w req image_count response
               (close_mask (ep_mask params)
                  (close_all images
                     (s\<lparr>remote_calls := remote_calls s @ [EditCall params]\<rparr>)))))"

text \<open>Lines 246 to 258: the keyword arguments, and the mask stream when a mask is given.\<close>

definition edit_parameters :: "edit_request \<Rightarrow> image_arg \<Rightarrow> stream option \<Rightarrow> edit_params" where
  "edit_parameters req img mask_stream =
     \<lparr>ep_model = ed_model req, ep_image = img, ep_prompt = ed_prompt req,
      ep_background = ed_background req, ep_n = ed_n req, ep_quality = ed_quality req,
      ep_size = ed_size req, ep_mask = mask_stream\<rparr>"

definition edit_with_mask ::
  "world \<Rightarrow> edit_request \<Rightarrow> stream list \<Rightarrow> nat \<Rightarrow> image_arg \<Rightarrow> state \<Rightarrow>
   state \<times> tool_result raising" where
  "edit_with_mask w req images image_count img s =
     (case (if mask_given (ed_mask_file req) then ed_mask_file req else None) of
        Some mask_file \<Rightarrow>
          (case open_stream w mask_file s of
             (s', Inl e) \<Rightarrow> (s', Inl (ExceptionInstance e))
           | (s', Inr f) \<Rightarrow>
               edit_call w req images image_count (edit_parameters req img (Some f)) s')
      | None \<Rightarrow> edit_call w req images image_count (edit_parameters req img None) s)"

text \<open>Lines 233 to 254: the client, the image streams and the entry \<^verbatim>\<open>"image"\<close>.\<close>

definition edit_open ::
  "world \<Rightarrow> edit_request \<Rightarrow> pystr \<Rightarrow> state \<Rightarrow> state \<times> tool_result raising" where
  "edit_open w req api_key s =
     (case openai_client w api_key of
        Some e \<Rightarrow> (s, Inl (ExceptionInstance e))
      | None \<Rightarrow>
          (case prepare_images w (ed_image_files req) s of
             (s', Inl e) \<Rightarrow> (s', Inl (ExceptionInstance e))
           | (s', Inr (images, image_count)) \<Rightarrow>
               (case image_argument images image_count of
                  Inl e \<Rightarrow> (s', Inl (ExceptionInstance e))
                | Inr img \<Rightarrow> edit_with_mask w req images image_count img s')))"

text \<open>The body of the \<^verbatim>\<open>try\<close> block, with its three validations in the order of the source.\<close>

definition edit_image_try :: "world \<Rightarrow> edit_request \<Rightarrow> state \<Rightarrow> state \<times> tool_result raising" where
  "edit_image_try w req s =
     (if ed_image_files req = NoFiles then (s, Inr ([], upload_error))
      else if py_strip (ed_prompt req) = [] then (s, Inr ([], edit_prompt_empty_error))
      else case config_get w api_key_name of
             None \<Rightarrow> (s, Inr ([], api_key_error))
           | Some api_key \<Rightarrow>
               if api_key = [] then (s, Inr ([], api_key_error))
               else edit_open w req api_key s)"

text \<open>
  The function: the \<^verbatim>\<open>try\<close> body under the handler \<^verbatim>\<open>except Exception as e\<close>, which
  catches instances of \<^verbatim>\<open>Exception\<close> only.
\<close>

definition edit_image :: "world \<Rightarrow> edit_request \<Rightarrow> state \<Rightarrow> state \<times> tool_result raising" where
  "edit_image w req s =
     (case edit_image_try w req s of
        (s', Inl (ExceptionInstance e)) \<Rightarrow> (s', Inr ([], edit_failed e))
      | (s', Inl (BaseExceptionOnly t m)) \<Rightarrow> (s', Inl (BaseExceptionOnly t m))
      | (s', Inr r) \<Rightarrow> (s', Inr r))"

section \<open>Reports and requests of the specification\<close>

text \<open>
  The reports a failed call returns: a validation message or the report of the handler.
\<close>

definition generation_error_report :: "pystr \<Rightarrow> bool" where
  "generation_error_report r \<longleftrightarrow>
     r = prompt_empty_error \<or> r = api_key_error \<or> (\<exists>e. r = generation_failed e)"

definition edit_error_report :: "pystr \<Rightarrow> bool" where
  "edit_error_report r \<longleftrightarrow>
     r = upload_error \<or> r = edit_prompt_empty_error \<or> r = api_key_error \<or>
     (\<exists>e. r = edit_failed e)"

text \<open>The reports of success: both f-strings start with \<^verbatim>\<open>##\<close>, a space and the check mark.\<close>

definition success_report :: "pystr \<Rightarrow> bool" where
  "success_report r \<longleftrightarrow> take 4 r = [35, 35, 32, 9989]"

text \<open>
  The GenerationRequest of the specification's data model: a non-empty prompt of at most
  32000 characters, a count from 1 to 10, a compression from 0 to 100, and the enumerated
  options.
\<close>

definition valid_generation_request :: "generation_request \<Rightarrow> bool" where
  "valid_generation_request req \<longleftrightarrow>
     py_strip (req_prompt req) \<noteq> [] \<and> length (req_prompt req) \<le> 32000 \<and>
     req_background req \<in> set (map str_lit [''auto'', ''transparent'', ''opaque'']) \<and>
     req_moderation req \<in> set (map str_lit [''low'', ''auto'']) \<and>
     1 \<le> req_n req \<and> req_n req \<le> 10 \<and>
     0 \<le> req_output_compression req \<and> req_output_compression req \<le> 100 \<and>
     req_output_format req \<in> set (map str_lit [''jpeg'', ''png'', ''webp'']) \<and>
     req_quality req \<in> set (map str_lit [''auto'', ''low'', ''medium'', ''high'']) \<and>
     req_size req \<in> set (map str_lit [''auto'', ''1024x1024'', ''1536x1024'', ''1024x1536''])"

section \<open>Example environments\<close>

text \<open>A state in which nothing has happened yet.\<close>

definition initial_state :: state where
  "initial_state =
     \<lparr>remote_calls = [], open_streams = [], next_stream = 0, files = (\<lambda>p. None),
      directories = []\<rparr>"

text \<open>
  A response with one image and a usage of 1000 text tokens and 2000 output tokens, and
  a response of the edit call with two images and 500 image tokens in addition.
\<close>

definition example_response :: images_response where
  "example_response =
     \<lparr>resp_created = 1700000000,
      resp_data = Some [Image (Some (str_lit ''QQ==''))],
      resp_usage = Some \<lparr>input_tokens_details = \<lparr>text_tokens = 1000, image_tokens = 0\<rparr>,
                         output_tokens = 2000, total_tokens = 3000\<rparr>\<rparr>"

definition example_edit_response :: images_response where
  "example_edit_response =
     \<lparr>resp_created = 1700000000,
      resp_data = Some [Image (Some (str_lit ''QQ=='')), Image (Some (str_lit ''Qg==''))],
      resp_usage = Some \<lparr>input_tokens_details = \<lparr>text_tokens = 1000, image_tokens = 500\<rparr>,
                         output_tokens = 2000, total_tokens = 3500\<rparr>\<rparr>"

text \<open>
  An environment in which everything works: the key is configured, the service answers
  with the responses above, and every file operation succeeds.
\<close>

definition example_world :: world where
  "example_world =
     \<lparr>config_get = (\<lambda>k. if k = api_key_name then Some (str_lit ''sk-test'') else None),
      openai_client = (\<lambda>k. None),
      images_generate = (\<lambda>r. Inr example_response),
      images_edit = (\<lambda>p. Inr example_edit_response),
      makedirs = (\<lambda>d. None),
      b64decode = (\<lambda>b. Inr (if b = str_lit ''QQ=='' then [65] else [66])),
      open_wb = (\<lambda>p. None),
      write_bytes = (\<lambda>p b. None),
      open_rb = (\<lambda>p. None),
      strftime_local = (\<lambda>t. Inr (str_lit ''2023-11-14 22:13:20'')),
      unicode_upper = (\<lambda>c. [c])\<rparr>"

text \<open>The same environment without the key, and with a service that fails or returns no image.\<close>

definition keyless_world :: world where
  "keyless_world = example_world\<lparr>config_get := (\<lambda>k. None)\<rparr>"

definition rate_limit_error :: py_exception where
  "rate_limit_error = PyException (str_lit ''RateLimitError'') (str_lit ''Rate limit reached'')"

definition failing_world :: world where
  "failing_world =
     example_world\<lparr>images_generate := (\<lambda>r. Inl (ExceptionInstance rate_limit_error)),
                    images_edit := (\<lambda>p. Inl (ExceptionInstance rate_limit_error))\<rparr>"

text \<open>The same environment with an interrupt arriving during the remote call.\<close>

definition keyboard_interrupt :: py_raised where
  "keyboard_interrupt = BaseExceptionOnly (str_lit ''KeyboardInterrupt'') []"

definition interrupted_world :: world where
  "interrupted_world =
     example_world\<lparr>images_generate := (\<lambda>r. Inl keyboard_interrupt),
                    images_edit := (\<lambda>p. Inl keyboard_interrupt)\<rparr>"

definition no_image_response :: images_response where
  "no_image_response = example_response\<lparr>resp_data := Some []\<rparr>"

definition no_image_edit_response :: images_response where
  "no_image_edit_response = example_edit_response\<lparr>resp_data := Some []\<rparr>"

definition no_image_world :: world where
  "no_image_world =
     example_world\<lparr>images_generate := (\<lambda>r. Inr no_image_response),
                    images_edit := (\<lambda>p. Inr no_image_edit_response)\<rparr>"

text \<open>Requests with the default options of the two signatures.\<close>

definition example_request :: generation_request where
  "example_request =
     \<lparr>req_prompt = str_lit ''A cat'', req_background = str_lit ''auto'',
      req_model = str_lit ''gpt-image-1'', req_moderation = str_lit ''low'', req_n = 1,
      req_output_compression = 85, req_output_format = str_lit ''jpeg'',
      req_quality = str_lit ''medium'', req_size = str_lit ''auto''\<rparr>"

definition blank_request :: generation_request where
  "blank_request = example_request\<lparr>req_prompt := str_lit ''  ''\<rparr>"

definition example_edit_request :: edit_request where
  "example_edit_request =
     \<lparr>ed_image_files = OnePath (str_lit ''cat.png''), ed_prompt = str_lit ''Add a hat'',
      ed_background = str_lit ''auto'', ed_mask_file = Some (str_lit ''mask.png''),
      ed_model = str_lit ''gpt-image-1'', ed_n = 2, ed_quality = str_lit ''medium'',
      ed_size = str_lit ''auto''\<rparr>"

definition empty_list_edit_request :: edit_request where
  "empty_list_edit_request = example_edit_request\<lparr>ed_image_files := PathList []\<rparr>"

definition no_files_edit_request :: edit_request where
  "no_files_edit_request = example_edit_request\<lparr>ed_image_files := NoFiles\<rparr>"

definition blank_edit_request :: edit_request where
  "blank_edit_request = example_edit_request\<lparr>ed_prompt := [32, 10]\<rparr>"

section \<open>Evaluation of the recursive functions\<close>

lemma bit_length_zero: "bit_length 0 = 0"
  by (simp add: bit_length.simps)

lemma bit_length_pos: "0 < n \<Longrightarrow> bit_length n = Suc (bit_length (n div 2))"
  by (subst bit_length.simps) simp

lemma str_nat_digit: "n < 10 \<Longrightarrow> str_nat n = [48 + n]"
  by (subst str_nat.simps) simp

lemma str_nat_more: "10 \<le> n \<Longrightarrow> str_nat n = str_nat (n div 10) @ [48 + n mod 10]"
  by (subst str_nat.simps) simp

lemma comma_groups_short: "length ds \<le> 3 \<Longrightarrow> comma_groups ds = ds"
  by (subst comma_groups.simps) simp

lemma comma_groups_long:
  "3 < length ds \<Longrightarrow>
   comma_groups ds = comma_groups (take (length ds - 3) ds) @ 44 # drop (length ds - 3) ds"
  by (subst comma_groups.simps) simp

lemmas float_eval =
  round_float_def rne_div_def rne_pick_def floor_log2_bits_def floor_log2_ratio_def
  quantum_def pack_float_def round_at_def float_const_def float_literal_def
  bit_length_zero bit_length_pos

section \<open>Propagation of exceptions\<close>

lemma propagate_simps [simp]:
  "propagate (s, Inl e) = (s, Inl (ExceptionInstance e))"
  "propagate (s, Inr x) = (s, Inr x)"
  by (simp_all add: propagate_def)

lemma propagate_returns [simp]:
  "propagate r = (s', Inr x) \<longleftrightarrow> r = (s', Inr x)"
  by (auto simp: propagate_def split: prod.splits sum.splits)

lemma propagate_raises [simp]:
  "propagate r = (s', Inl y) \<longleftrightarrow> (\<exists>e. y = ExceptionInstance e \<and> r = (s', Inl e))"
  by (auto simp: propagate_def split: prod.splits sum.splits)

section \<open>The save loop\<close>

lemma float_div_len_zero: "float_div_len x 0 = Inl float_division_by_zero"
  by (simp add: float_div_len_def)

lemma write_file_frame:
  "write_file w p b s = (s', r) \<Longrightarrow>
     remote_calls s' = remote_calls s \<and> open_streams s' = open_streams s \<and>
     next_stream s' = next_stream s \<and> directories s' = directories s"
  by (auto simp: write_file_def split: option.splits)

lemma write_file_ok:
  "write_file w p b s = (s', None) \<Longrightarrow> files s' = (files s)(p \<mapsto> b)"
  by (auto simp: write_file_def split: option.splits)

lemma save_images_frame:
  "save_images w fn i imgs acc s = (s', r) \<Longrightarrow>
     remote_calls s' = remote_calls s \<and> open_streams s' = open_streams s \<and>
     next_stream s' = next_stream s \<and> directories s' = directories s"
proof (induction imgs arbitrary: i acc s)
  case Nil
  then show ?case by simp
next
  case (Cons a imgs)
  then show ?case
    by (auto split: sum.splits prod.splits option.splits dest!: write_file_frame)
qed

lemma save_images_paths:
  "save_images w fn i imgs acc s = (s', Inr paths) \<Longrightarrow>
     paths = acc @ map (\<lambda>j. path_join output_dir (fn j)) [i..<i + length imgs] \<and>
     (set acc \<subseteq> dom (files s) \<longrightarrow> set paths \<subseteq> dom (files s'))"
proof (induction imgs arbitrary: i acc s)
  case Nil
  then show ?case by auto
next
  case (Cons a imgs)
  from Cons.prems obtain b where dec: "decode_image w a = Inr b"
    by (cases "decode_image w a") auto
  obtain s1 r1 where wf: "write_file w (path_join output_dir (fn i)) b s = (s1, r1)"
    by (cases "write_file w (path_join output_dir (fn i)) b s")
  from Cons.prems dec wf have r1: "r1 = None" by (cases r1) auto
  with Cons.prems dec wf
  have rec: "save_images w fn (i + 1) imgs (acc @ [path_join output_dir (fn i)]) s1 = (s', Inr paths)"
    by simp
  note ih = Cons.IH[OF rec]
  have f1: "files s1 = (files s)(path_join output_dir (fn i) \<mapsto> b)"
    using write_file_ok wf r1 by blast
  have "[i..<i + length (a # imgs)] = i # [i + 1..<i + 1 + length imgs]"
    by (simp add: upt_rec)
  with ih have p: "paths = acc @ map (\<lambda>j. path_join output_dir (fn j)) [i..<i + length (a # imgs)]"
    by simp
  have "set acc \<subseteq> dom (files s) \<Longrightarrow> set (acc @ [path_join output_dir (fn i)]) \<subseteq> dom (files s1)"
    using f1 by auto
  with ih p show ?case by blast
qed

lemma save_all_frame:
  "save_all w fn response s = (s', r) \<Longrightarrow>
     remote_calls s' = remote_calls s \<and> open_streams s' = open_streams s \<and>
     next_stream s' = next_stream s"
  by (auto simp: save_all_def split: option.splits dest!: save_images_frame)

lemma save_all_paths:
  assumes "save_all w fn response s = (s', Inr paths)"
  shows "\<exists>images. resp_data response = Some images \<and>
           paths = map (\<lambda>j. path_join output_dir (fn j)) [0..<length images] \<and>
           set paths \<subseteq> dom (files s')"
proof -
  from assms obtain images where d: "resp_data response = Some images"
    and sv: "save_images w fn 0 images [] (s\<lparr>directories := output_dir # directories s\<rparr>) = (s', Inr paths)"
    by (auto simp: save_all_def split: option.splits)
  note sp = save_images_paths[OF sv]
  from sp have p: "paths = map (\<lambda>j. path_join output_dir (fn j)) [0..<length images]"
    by simp
  from sp have "set [] \<subseteq> dom (files (s\<lparr>directories := output_dir # directories s\<rparr>)) \<longrightarrow>
                set paths \<subseteq> dom (files s')"
    by (rule conjunct2)
  then have "set paths \<subseteq> dom (files s')"
    by (simp del: set_map)
  with d p show ?thesis by blast
qed

lemma save_all_success:
  assumes "save_all w fn response s = (s', Inr paths)"
  shows "\<exists>images. resp_data response = Some images \<and>
           paths = map (\<lambda>j. path_join output_dir (fn j)) [0..<length images] \<and>
           set paths \<subseteq> dom (files s') \<and> remote_calls s' = remote_calls s \<and>
           open_streams s' = open_streams s"
  using save_all_paths[OF assms] save_all_frame[OF assms] by blast

section \<open>Successful runs of \<^verbatim>\<open>generate_image\<close>\<close>

lemma generate_report_success:
  assumes "generate_report w req response image_paths = Inr (paths, report)"
  shows "paths = image_paths \<and> image_paths \<noteq> [] \<and>
         (\<exists>u c created_str per_image.
            resp_usage response = Some u \<and> generate_costs u = Inr c \<and>
            strftime_local w (resp_created response) = Inr created_str \<and>
            float_div_len (total_cost c) (length image_paths) = Inr per_image \<and>
            report = generation_info w req (length image_paths) created_str u c per_image)"
  using assms
  by (cases "image_paths = []")
     (auto simp: generate_report_def float_div_len_zero split: option.splits sum.splits)

lemma generate_store_success:
  assumes "generate_store w req response s = (s', Inr (paths, report))"
  shows "\<exists>images. resp_data response = Some images \<and>
           paths = map (\<lambda>j. path_join output_dir
                     (generated_filename (resp_created response)
                        (extension (req_output_format req)) j)) [0..<length images] \<and>
           set paths \<subseteq> dom (files s') \<and> remote_calls s' = remote_calls s \<and>
           open_streams s' = open_streams s \<and>
           generate_report w req response paths = Inr (paths, report)"
proof -
  let ?fn = "generated_filename (resp_created response) (extension (req_output_format req))"
  from assms obtain image_paths where
    sv: "save_all w ?fn response s = (s', Inr image_paths)"
    and rp: "generate_report w req response image_paths = Inr (paths, report)"
    by (auto simp: generate_store_def split: prod.splits sum.splits)
  from generate_report_success[OF rp] have eq: "paths = image_paths" by simp
  from save_all_success[OF sv] rp eq show ?thesis by auto
qed

lemma generate_try_success:
  assumes "generate_image_try w req s = (s', Inr (paths, report))"
  shows "(paths = [] \<and> s' = s \<and> (report = prompt_empty_error \<or> report = api_key_error)) \<or>
         (\<exists>response images.
            images_generate w req = Inr response \<and> resp_data response = Some images \<and>
            paths = map (\<lambda>j. path_join output_dir
                      (generated_filename (resp_created response)
                         (extension (req_output_format req)) j)) [0..<length images] \<and>
            set paths \<subseteq> dom (files s') \<and>
            remote_calls s' = remote_calls s @ [GenerateCall req] \<and>
            open_streams s' = open_streams s \<and>
            generate_report w req response paths = Inr (paths, report))"
proof (cases "py_strip (req_prompt req) = [] \<or> config_get w api_key_name = None \<or>
              config_get w api_key_name = Some []")
  case True
  with assms
  have "paths = [] \<and> s' = s \<and> (report = prompt_empty_error \<or> report = api_key_error)"
    by (auto simp: generate_image_try_def split: if_splits option.splits)
  then show ?thesis by blast
next
  case False
  then obtain api_key where k: "config_get w api_key_name = Some api_key" "api_key \<noteq> []"
    and p: "py_strip (req_prompt req) \<noteq> []"
    by auto
  with assms have c: "generate_call w req api_key s = (s', Inr (paths, report))"
    by (simp add: generate_image_try_def)
  then obtain response where r: "images_generate w req = Inr response"
    and st: "generate_store w req response (s\<lparr>remote_calls := remote_calls s @ [GenerateCall req]\<rparr>)
             = (s', Inr (paths, report))"
    by (auto simp: generate_call_def propagate_def split: option.splits sum.splits prod.splits)
  from generate_store_success[OF st] r show ?thesis by auto
qed

section \<open>Validation\<close>

text \<open>
  Claim C5. A prompt that is empty after \<^verbatim>\<open>strip()\<close> makes \<^verbatim>\<open>generate_image\<close> return the
  empty list with the message that the prompt cannot be empty, and an edit instruction
  that is empty after \<^verbatim>\<open>strip()\<close> makes \<^verbatim>\<open>edit_image\<close> return the empty list with a
  validation message, whatever the other parameters and the environment are. The state
  is returned as it was: the remote service is not invoked, nothing is opened or written.
\<close>

theorem empty_prompt_rejected:
  "(py_strip (req_prompt req) = [] \<longrightarrow>
      generate_image w req s = (s, Inr ([], prompt_empty_error))) \<and>
   (py_strip (ed_prompt ereq) = [] \<longrightarrow>
      edit_image w ereq s =
        (s, Inr ([], if ed_image_files ereq = NoFiles then upload_error
                     else edit_prompt_empty_error)))"
  by (simp add: generate_image_def generate_image_try_def edit_image_def edit_image_try_def)

lemma blank_strips: "py_strip (str_lit ''  '') = [] \<and> py_strip [32, 10] = []"
  by (simp add: py_strip_def py_isspace_def str_lit_def)

theorem empty_prompt_rejected_witness:
  "py_strip (req_prompt blank_request) = [] \<and>
   generate_image example_world blank_request initial_state =
     (initial_state, Inr ([], prompt_empty_error)) \<and>
   remote_calls (fst (generate_image example_world blank_request initial_state)) = [] \<and>
   py_strip (ed_prompt blank_edit_request) = [] \<and>
   edit_image example_world blank_edit_request initial_state =
     (initial_state, Inr ([], edit_prompt_empty_error)) \<and>
   remote_calls (fst (edit_image example_world blank_edit_request initial_state)) = []"
  using empty_prompt_rejected [of blank_request example_world initial_state blank_edit_request]
    blank_strips
  by (simp add: blank_request_def blank_edit_request_def example_request_def
      example_edit_request_def initial_state_def)

text \<open>
  Claim C6. When the configuration has no API key (\<^verbatim>\<open>config.get\<close> returns \<^verbatim>\<open>None\<close>, or
  the empty string), both tools return the empty list with a validation message, for
  every request, and the state is returned as it was: the remote service is not invoked.
\<close>

theorem missing_credential_rejected:
  "config_get w api_key_name = None \<or> config_get w api_key_name = Some [] \<longrightarrow>
     generate_image w req s =
       (s, Inr ([], if py_strip (req_prompt req) = [] then prompt_empty_error
                    else api_key_error)) \<and>
     edit_image w ereq s =
       (s, Inr ([], if ed_image_files ereq = NoFiles then upload_error
                    else if py_strip (ed_prompt ereq) = [] then edit_prompt_empty_error
                    else api_key_error))"
  by (auto simp add: generate_image_def generate_image_try_def edit_image_def edit_image_try_def)

theorem missing_credential_rejected_witness:
  "config_get keyless_world api_key_name = None \<and>
   generate_image keyless_world example_request initial_state =
     (initial_state, Inr ([], api_key_error)) \<and>
   edit_image keyless_world example_edit_request initial_state =
     (initial_state, Inr ([], api_key_error))"
  using missing_credential_rejected
    [of keyless_world example_request initial_state example_edit_request]
  by (simp add: keyless_world_def example_world_def example_request_def
      example_edit_request_def py_strip_def py_isspace_def str_lit_def)

section \<open>Successful runs of \<^verbatim>\<open>edit_image\<close>\<close>

lemma open_stream_frame:
  "open_stream w p s = (s', r) \<Longrightarrow>
     remote_calls s' = remote_calls s \<and> files s' = files s \<and> directories s' = directories s"
  by (auto simp: open_stream_def split: option.splits)

lemma open_all_frame:
  "open_all w ps acc s = (s', r) \<Longrightarrow>
     remote_calls s' = remote_calls s \<and> files s' = files s \<and> directories s' = directories s"
proof (induction ps arbitrary: acc s)
  case Nil
  then show ?case by simp
next
  case (Cons p ps)
  then show ?case
    by (auto split: prod.splits sum.splits dest!: open_stream_frame)
qed

lemma close_stream_frame:
  "remote_calls (close_stream f s) = remote_calls s \<and> files (close_stream f s) = files s \<and>
   directories (close_stream f s) = directories s"
  by (simp add: close_stream_def)

lemma close_all_frame:
  "remote_calls (close_all fs s) = remote_calls s \<and> files (close_all fs s) = files s \<and>
   directories (close_all fs s) = directories s"
  unfolding close_all_def
  by (induction fs arbitrary: s) (simp_all add: close_stream_frame)

lemma close_mask_frame:
  "remote_calls (close_mask m s) = remote_calls s \<and> files (close_mask m s) = files s \<and>
   directories (close_mask m s) = directories s"
  by (cases m) (simp_all add: close_mask_def close_stream_frame)

lemma prepare_images_frame:
  "prepare_images w fs s = (s', r) \<Longrightarrow>
     remote_calls s' = remote_calls s \<and> files s' = files s \<and> directories s' = directories s"
  by (cases fs)
     (auto simp: prepare_images_def split: prod.splits sum.splits
       dest!: open_stream_frame open_all_frame)

lemma edit_report_success:
  assumes "edit_report w req image_count response image_paths = Inr (paths, report)"
  shows "paths = image_paths \<and> image_paths \<noteq> [] \<and>
         (\<exists>u c created_str per_image.
            resp_usage response = Some u \<and> edit_costs u = Inr c \<and>
            strftime_local w (resp_created response) = Inr created_str \<and>
            float_div_len (total_cost c) (length image_paths) = Inr per_image \<and>
            report = edit_info req image_count (length image_paths) created_str u c per_image)"
  using assms
  by (cases "image_paths = []")
     (auto simp: edit_report_def float_div_len_zero split: option.splits sum.splits)

lemma edit_store_success:
  assumes "edit_store w req image_count response s = (s', Inr (paths, report))"
  shows "\<exists>images. resp_data response = Some images \<and>
           paths = map (\<lambda>j. path_join output_dir (edited_filename (resp_created response) j))
                     [0..<length images] \<and>
           set paths \<subseteq> dom (files s') \<and> remote_calls s' = remote_calls s \<and>
           open_streams s' = open_streams s \<and>
           edit_report w req image_count response paths = Inr (paths, report)"
proof -
  from assms obtain image_paths where
    sv: "save_all w (edited_filename (resp_created response)) response s = (s', Inr image_paths)"
    and rp: "edit_report w req image_count response image_paths = Inr (paths, report)"
    by (auto simp: edit_store_def split: prod.splits sum.splits)
  from edit_report_success[OF rp] have eq: "paths = image_paths" by simp
  from save_all_success[OF sv] rp eq show ?thesis by auto
qed

lemma edit_call_success:
  assumes "edit_call w req images image_count params s = (s', Inr (paths, report))"
  shows "\<exists>response outputs.
           images_edit w params = Inr response \<and> resp_data response = Some outputs \<and>
           paths = map (\<lambda>j. path_join output_dir (edited_filename (resp_created response) j))
                     [0..<length outputs] \<and>
           set paths \<subseteq> dom (files s') \<and>
           remote_calls s' = remote_calls s @ [EditCall params] \<and>
           edit_report w req image_count response paths = Inr (paths, report)"
proof -
  from assms obtain response where r: "images_edit w params = Inr response"
    and st: "edit_store w req image_count response
               (close_mask (ep_mask params)
                  (close_all images (s\<lparr>remote_calls := remote_calls s @ [EditCall params]\<rparr>)))
             = (s', Inr (paths, report))"
    by (auto simp: edit_call_def split: sum.splits)
  from edit_store_success[OF st] r show ?thesis
    by (auto simp: close_mask_frame close_all_frame)
qed

lemma edit_with_mask_success:
  assumes "edit_with_mask w req images image_count img s = (s', Inr (paths, report))"
  shows "\<exists>params response outputs.
           images_edit w params = Inr response \<and> resp_data response = Some outputs \<and>
           paths = map (\<lambda>j. path_join output_dir (edited_filename (resp_created response) j))
                     [0..<length outputs] \<and>
           set paths \<subseteq> dom (files s') \<and>
           remote_calls s' = remote_calls s @ [EditCall params] \<and>
           edit_report w req image_count response paths = Inr (paths, report)"
proof (cases "if mask_given (ed_mask_file req) then ed_mask_file req else None")
  case None
  with assms
  have "edit_call w req images image_count (edit_parameters req img None) s = (s', Inr (paths, report))"
    by (simp add: edit_with_mask_def)
  from edit_call_success[OF this] show ?thesis by blast
next
  case (Some mask_file)
  with assms obtain s1 f where o: "open_stream w mask_file s = (s1, Inr f)"
    and c: "edit_call w req images image_count (edit_parameters req img (Some f)) s1
            = (s', Inr (paths, report))"
    by (auto simp: edit_with_mask_def split: prod.splits sum.splits)
  from edit_call_success[OF c] open_stream_frame[OF o] show ?thesis by auto
qed

lemma edit_open_success:
  assumes "edit_open w req api_key s = (s', Inr (paths, report))"
  shows "\<exists>params response outputs image_count.
           images_edit w params = Inr response \<and> resp_data response = Some outputs \<and>
           paths = map (\<lambda>j. path_join output_dir (edited_filename (resp_created response) j))
                     [0..<length outputs] \<and>
           set paths \<subseteq> dom (files s') \<and>
           remote_calls s' = remote_calls s @ [EditCall params] \<and>
           edit_report w req image_count response paths = Inr (paths, report)"
proof -
  from assms obtain s1 images image_count img where
    p: "prepare_images w (ed_image_files req) s = (s1, Inr (images, image_count))"
    and m: "edit_with_mask w req images image_count img s1 = (s', Inr (paths, report))"
    by (auto simp: edit_open_def split: option.splits prod.splits sum.splits)
  from edit_with_mask_success[OF m] prepare_images_frame[OF p] show ?thesis by auto
qed

lemma edit_try_success:
  assumes "edit_image_try w req s = (s', Inr (paths, report))"
  shows "(paths = [] \<and> s' = s \<and>
          (report = upload_error \<or> report = edit_prompt_empty_error \<or> report = api_key_error)) \<or>
         (\<exists>params response outputs image_count.
           images_edit w params = Inr response \<and> resp_data response = Some outputs \<and>
           paths = map (\<lambda>j. path_join output_dir (edited_filename (resp_created response) j))
                     [0..<length outputs] \<and>
           set paths \<subseteq> dom (files s') \<and>
           remote_calls s' = remote_calls s @ [EditCall params] \<and>
           edit_report w req image_count response paths = Inr (paths, report))"
proof (cases "ed_image_files req = NoFiles \<or> py_strip (ed_prompt req) = [] \<or>
              config_get w api_key_name = None \<or> config_get w api_key_name = Some []")
  case True
  with assms
  have "paths = [] \<and> s' = s \<and>
        (report = upload_error \<or> report = edit_prompt_empty_error \<or> report = api_key_error)"
    by (auto simp: edit_image_try_def split: if_splits option.splits)
  then show ?thesis by blast
next
  case False
  then obtain api_key where "config_get w api_key_name = Some api_key" "api_key \<noteq> []"
    "ed_image_files req \<noteq> NoFiles" "py_strip (ed_prompt req) \<noteq> []"
    by auto
  with assms have "edit_open w req api_key s = (s', Inr (paths, report))"
    by (simp add: edit_image_try_def)
  from edit_open_success[OF this] show ?thesis by blast
qed

section \<open>Evaluation of the examples\<close>

text \<open>
  The binary64 numbers of the examples:
  \<open>0.005\<close>, \<open>0.08\<close>, \<open>0.085\<close>, \<open>0.01\<close>, \<open>0.09\<close>, \<open>0.045\<close> and the rates.
\<close>

lemma lit_0005: "float_literal 5 1000 = Finite False 5764607523034235 (- 60)"
  by (simp add: float_eval)

lemma lit_008: "float_literal 8 100 = Finite False 5764607523034235 (- 56)"
  by (simp add: float_eval)

lemma lit_0085: "float_literal 85 1000 = Finite False 6124895493223875 (- 56)"
  by (simp add: float_eval)

lemma lit_001: "float_literal 10 1000 = Finite False 5764607523034235 (- 59)"
  by (simp add: float_eval)

lemma lit_009: "float_literal 9 100 = Finite False 6485183463413514 (- 56)"
  by (simp add: float_eval)

lemma lit_0045: "float_literal 45 1000 = Finite False 6485183463413514 (- 57)"
  by (simp add: float_eval)

lemma const_one: "float_const (Suc 0) = Finite False 4503599627370496 (- 52)"
  by (simp add: float_eval)

lemma const_two: "float_const 2 = Finite False 4503599627370496 (- 51)"
  by (simp add: float_eval)

lemma const_5: "float_const 5 = Finite False 5629499534213120 (- 50)"
  by (simp add: float_eval)

lemma const_10: "float_const 10 = Finite False 5629499534213120 (- 49)"
  by (simp add: float_eval)

lemma const_40: "float_const 40 = Finite False 5629499534213120 (- 47)"
  by (simp add: float_eval)

lemma div_1000: "int_truediv 1000 1000000 = Inr (Finite False 4611686018427388 (- 62))"
  by (simp add: int_truediv_def float_eval)

lemma div_2000: "int_truediv 2000 1000000 = Inr (Finite False 4611686018427388 (- 61))"
  by (simp add: int_truediv_def float_eval)

lemma div_500: "int_truediv 500 1000000 = Inr (Finite False 4611686018427388 (- 63))"
  by (simp add: int_truediv_def float_eval)

lemma mul_text:
  "float_mul (Finite False 4611686018427388 (- 62)) (Finite False 5629499534213120 (- 50)) =
   Finite False 5764607523034235 (- 60)"
  by (simp add: float_eval)

lemma mul_image:
  "float_mul (Finite False 4611686018427388 (- 63)) (Finite False 5629499534213120 (- 49)) =
   Finite False 5764607523034235 (- 60)"
  by (simp add: float_eval)

lemma mul_output:
  "float_mul (Finite False 4611686018427388 (- 61)) (Finite False 5629499534213120 (- 47)) =
   Finite False 5764607523034235 (- 56)"
  by (simp add: float_eval)

lemma add_total:
  "float_add (Finite False 5764607523034235 (- 60)) (Finite False 5764607523034235 (- 56)) =
   Finite False 6124895493223875 (- 56)"
  by (simp add: signed_def round_sum_def float_eval)

lemma add_input:
  "float_add (Finite False 5764607523034235 (- 60)) (Finite False 5764607523034235 (- 60)) =
   Finite False 5764607523034235 (- 59)"
  by (simp add: signed_def round_sum_def float_eval)

lemma add_edit_total:
  "float_add (Finite False 5764607523034235 (- 59)) (Finite False 5764607523034235 (- 56)) =
   Finite False 6485183463413514 (- 56)"
  by (simp add: signed_def round_sum_def float_eval)

lemma div_by_one:
  "round_float False 6124895493223875 4503599627370496 (- 4) =
   Finite False 6124895493223875 (- 56)"
  by (simp add: float_eval)

lemma div_by_two:
  "round_float False 6485183463413514 4503599627370496 (- 5) =
   Finite False 6485183463413514 (- 57)"
  by (simp add: float_eval)

lemma token_cost_text: "token_cost 1000 5 = Inr (float_literal 5 1000)"
  by (simp only: token_cost_def div_1000 const_5 mul_text lit_0005 sum.case)

lemma token_cost_image: "token_cost 500 10 = Inr (float_literal 5 1000)"
  by (simp only: token_cost_def div_500 const_10 mul_image lit_0005 sum.case)

lemma token_cost_output: "token_cost 2000 40 = Inr (float_literal 8 100)"
  by (simp only: token_cost_def div_2000 const_40 mul_output lit_008 sum.case)

lemma total_example: "float_add (float_literal 5 1000) (float_literal 8 100) = float_literal 85 1000"
  by (simp only: lit_0005 lit_008 lit_0085 add_total)

lemma input_example: "float_add (float_literal 5 1000) (float_literal 5 1000) = float_literal 10 1000"
  by (simp only: lit_0005 lit_001 add_input)

lemma edit_total_example:
  "float_add (float_literal 10 1000) (float_literal 8 100) = float_literal 9 100"
  by (simp only: lit_001 lit_008 lit_009 add_edit_total)

lemma per_image_example:
  "float_div_len (float_literal 85 1000) (Suc 0) = Inr (float_literal 85 1000)"
  by (simp add: float_div_len_def const_one lit_0085 div_by_one)

lemmas format_eval =
  format_4f_def fixed4_def pad4_def rne_div_def rne_pick_def str_nat_digit str_nat_more str_lit_def

lemma fmt_0005: "format_4f (float_literal 5 1000) = str_lit ''0.0050''"
  unfolding lit_0005 by (simp add: format_eval)

lemma fmt_008: "format_4f (float_literal 8 100) = str_lit ''0.0800''"
  unfolding lit_008 by (simp add: format_eval)

lemma fmt_0085: "format_4f (float_literal 85 1000) = str_lit ''0.0850''"
  unfolding lit_0085 by (simp add: format_eval)




text \<open>The costs of the two example usages.\<close>

lemma example_costs:
  "text_tokens (input_tokens_details u) = 1000 \<Longrightarrow> output_tokens u = 2000 \<Longrightarrow>
   generate_costs u =
     Inr \<lparr>input_cost = float_literal 5 1000, output_cost = float_literal 8 100,
          total_cost = float_literal 85 1000\<rparr>"
  by (simp add: generate_costs_def token_cost_text token_cost_output sum_costs_def total_example)

lemma example_edit_costs:
  "text_tokens (input_tokens_details u) = 1000 \<Longrightarrow>
   image_tokens (input_tokens_details u) = 500 \<Longrightarrow> output_tokens u = 2000 \<Longrightarrow>
   edit_costs u =
     Inr \<lparr>input_cost = float_literal 10 1000, output_cost = float_literal 8 100,
          total_cost = float_literal 9 100\<rparr>"
  by (simp add: edit_costs_def token_cost_text token_cost_image token_cost_output sum_costs_def
      input_example edit_total_example)

text \<open>The run of \<^verbatim>\<open>generate_image\<close> on the example request.\<close>

lemma example_path:
  "path_join output_dir (generated_filename 1700000000 (extension (str_lit ''jpeg'')) 0) =
   str_lit ''generated_images/generated_1700000000_1.jpg''"
  by (simp add: path_join_def output_dir_def generated_filename_def extension_def str_lit_def
      str_int_def str_nat_digit str_nat_more)

lemma example_save:
  "save_all example_world (generated_filename 1700000000 (extension (str_lit ''jpeg'')))
     example_response s =
   (s\<lparr>directories := output_dir # directories s,
       files := (files s)(str_lit ''generated_images/generated_1700000000_1.jpg'' \<mapsto> [65])\<rparr>,
    Inr [str_lit ''generated_images/generated_1700000000_1.jpg''])"
  by (simp add: save_all_def example_world_def example_response_def decode_image_def
      write_file_def example_path)

lemma example_report:
  "generate_report example_world example_request example_response [p] =
   Inr ([p], generation_info example_world example_request 1 (str_lit ''2023-11-14 22:13:20'')
      \<lparr>input_tokens_details = \<lparr>text_tokens = 1000, image_tokens = 0\<rparr>,
        output_tokens = 2000, total_tokens = 3000\<rparr>
      \<lparr>input_cost = float_literal 5 1000, output_cost = float_literal 8 100,
        total_cost = float_literal 85 1000\<rparr> (float_literal 85 1000))"
  by (simp add: generate_report_def example_response_def example_costs example_world_def
      per_image_example)

lemma example_prompt: "py_strip (req_prompt example_request) \<noteq> []"
  by (simp add: example_request_def py_strip_def py_isspace_def str_lit_def)

lemma example_key:
  "config_get example_world api_key_name = Some (str_lit ''sk-test'') \<and> str_lit ''sk-test'' \<noteq> []"
  by (simp add: example_world_def str_lit_def)

lemma example_run:
  "generate_image example_world example_request initial_state =
   (\<lparr>remote_calls = [GenerateCall example_request], open_streams = [], next_stream = 0,
     files = [str_lit ''generated_images/generated_1700000000_1.jpg'' \<mapsto> [65]],
     directories = [output_dir]\<rparr>,
    Inr ([str_lit ''generated_images/generated_1700000000_1.jpg''],
      generation_info example_world example_request 1 (str_lit ''2023-11-14 22:13:20'')
        \<lparr>input_tokens_details = \<lparr>text_tokens = 1000, image_tokens = 0\<rparr>,
          output_tokens = 2000, total_tokens = 3000\<rparr>
        \<lparr>input_cost = float_literal 5 1000, output_cost = float_literal 8 100,
          total_cost = float_literal 85 1000\<rparr> (float_literal 85 1000)))"
proof -
  have c: "openai_client example_world (str_lit ''sk-test'') = None"
    "images_generate example_world example_request = Inr example_response"
    by (simp_all add: example_world_def)
  have f: "req_output_format example_request = str_lit ''jpeg''"
    "resp_created example_response = 1700000000"
    by (simp_all add: example_request_def example_response_def)
  show ?thesis
    by (simp add: generate_image_def generate_image_try_def example_prompt example_key
        generate_call_def c generate_store_def f example_save example_report initial_state_def)
qed

section \<open>Costs of \<^verbatim>\<open>generate_image\<close>\<close>

lemma sublist_concat: "xs \<in> set xss \<Longrightarrow> sublist xs (concat xss)"
proof -
  assume "xs \<in> set xss"
  then obtain as bs where "xss = as @ xs # bs"
    by (auto dest: split_list)
  then have "concat xss = concat as @ xs @ concat bs"
    by simp
  then show ?thesis
    unfolding sublist_def by blast
qed

lemma generate_image_success:
  assumes "generate_image w req s = (s', Inr (paths, report))" and "paths \<noteq> []"
  shows "\<exists>response images u c created_str per_image.
           images_generate w req = Inr response \<and> resp_data response = Some images \<and>
           paths = map (\<lambda>j. path_join output_dir
                     (generated_filename (resp_created response)
                        (extension (req_output_format req)) j)) [0..<length images] \<and>
           set paths \<subseteq> dom (files s') \<and>
           remote_calls s' = remote_calls s @ [GenerateCall req] \<and>
           resp_usage response = Some u \<and> generate_costs u = Inr c \<and>
           strftime_local w (resp_created response) = Inr created_str \<and>
           float_div_len (total_cost c) (length paths) = Inr per_image \<and>
           report = generation_info w req (length paths) created_str u c per_image"
proof -
  from assms have t: "generate_image_try w req s = (s', Inr (paths, report))"
    by (auto simp: generate_image_def split: prod.splits sum.splits py_raised.splits)
  from generate_try_success[OF t] assms(2) obtain response images where
    r: "images_generate w req = Inr response" "resp_data response = Some images"
      "paths = map (\<lambda>j. path_join output_dir
                     (generated_filename (resp_created response)
                        (extension (req_output_format req)) j)) [0..<length images]"
      "set paths \<subseteq> dom (files s')" "remote_calls s' = remote_calls s @ [GenerateCall req]"
    and g: "generate_report w req response paths = Inr (paths, report)"
    by blast
  from generate_report_success[OF g] r show ?thesis by blast
qed

lemma generate_costs_formula:
  assumes "generate_costs u = Inr c"
  shows "\<exists>a b. int_truediv (text_tokens (input_tokens_details u)) 1000000 = Inr a \<and>
               int_truediv (output_tokens u) 1000000 = Inr b \<and>
               c = \<lparr>input_cost = float_mul a (float_const 5),
                    output_cost = float_mul b (float_const 40),
                    total_cost = float_add (float_mul a (float_const 5))
                                   (float_mul b (float_const 40))\<rparr>"
  using assms
  by (auto simp: generate_costs_def token_cost_def sum_costs_def split: sum.splits)

text \<open>
  Claim C3. In a successful call of \<^verbatim>\<open>generate_image\<close> the costs shown in the report are
  computed from the usage \<open>u\<close> of the response in binary64 arithmetic: the input cost is
  \<open>(text_tokens / 1000000) * 5.00\<close>, the output cost is \<open>(output_tokens / 1000000) * 40.00\<close>
  and the total is their sum. For 1000 text tokens and 2000 output tokens these are the
  floats \<open>0.005\<close>, \<open>0.08\<close> and \<open>0.085\<close>. The costs are a function of the usage, so the same
  usage gives the same costs.
\<close>

theorem generate_cost_model:
  "generate_image w req s = (s', Inr (paths, report)) \<and> paths \<noteq> [] \<longrightarrow>
   (\<exists>response u a b per_image.
      images_generate w req = Inr response \<and> resp_usage response = Some u \<and>
      int_truediv (text_tokens (input_tokens_details u)) 1000000 = Inr a \<and>
      int_truediv (output_tokens u) 1000000 = Inr b \<and>
      float_div_len (float_add (float_mul a (float_const 5)) (float_mul b (float_const 40)))
        (length paths) = Inr per_image \<and>
      sublist
        (cost_lines [] (str_lit ''Image'')
           \<lparr>input_cost = float_mul a (float_const 5),
            output_cost = float_mul b (float_const 40),
            total_cost = float_add (float_mul a (float_const 5)) (float_mul b (float_const 40))\<rparr>
           per_image)
        report \<and>
      (text_tokens (input_tokens_details u) = 1000 \<and> output_tokens u = 2000 \<longrightarrow>
         float_mul a (float_const 5) = float_literal 5 1000 \<and>
         float_mul b (float_const 40) = float_literal 8 100 \<and>
         float_add (float_mul a (float_const 5)) (float_mul b (float_const 40)) =
           float_literal 85 1000))"
proof (intro impI)
  assume h: "generate_image w req s = (s', Inr (paths, report)) \<and> paths \<noteq> []"
  then obtain response u c created_str per_image where
    r: "images_generate w req = Inr response" "resp_usage response = Some u"
    and c: "generate_costs u = Inr c"
    and d: "float_div_len (total_cost c) (length paths) = Inr per_image"
    and rep: "report = generation_info w req (length paths) created_str u c per_image"
    using generate_image_success[of w req s s' paths report] by blast
  from generate_costs_formula[OF c] obtain a b where
    ab: "int_truediv (text_tokens (input_tokens_details u)) 1000000 = Inr a"
      "int_truediv (output_tokens u) 1000000 = Inr b"
    and ceq: "c = \<lparr>input_cost = float_mul a (float_const 5),
                   output_cost = float_mul b (float_const 40),
                   total_cost = float_add (float_mul a (float_const 5))
                                  (float_mul b (float_const 40))\<rparr>"
    by blast
  have sub: "sublist (cost_lines [] (str_lit ''Image'') c per_image) report"
    unfolding rep generation_info_def by (rule sublist_concat) simp
  have ex: "text_tokens (input_tokens_details u) = 1000 \<and> output_tokens u = 2000 \<longrightarrow>
         float_mul a (float_const 5) = float_literal 5 1000 \<and>
         float_mul b (float_const 40) = float_literal 8 100 \<and>
         float_add (float_mul a (float_const 5)) (float_mul b (float_const 40)) =
           float_literal 85 1000"
  proof (intro impI)
    assume t: "text_tokens (input_tokens_details u) = 1000 \<and> output_tokens u = 2000"
    with example_costs[of u] c ceq show "float_mul a (float_const 5) = float_literal 5 1000 \<and>
         float_mul b (float_const 40) = float_literal 8 100 \<and>
         float_add (float_mul a (float_const 5)) (float_mul b (float_const 40)) =
           float_literal 85 1000"
      by (simp add: total_example)
  qed
  from d ceq have d': "float_div_len (float_add (float_mul a (float_const 5))
      (float_mul b (float_const 40))) (length paths) = Inr per_image"
    by simp
  from r ab d' sub ex ceq show "\<exists>response u a b per_image.
      images_generate w req = Inr response \<and> resp_usage response = Some u \<and>
      int_truediv (text_tokens (input_tokens_details u)) 1000000 = Inr a \<and>
      int_truediv (output_tokens u) 1000000 = Inr b \<and>
      float_div_len (float_add (float_mul a (float_const 5)) (float_mul b (float_const 40)))
        (length paths) = Inr per_image \<and>
      sublist
        (cost_lines [] (str_lit ''Image'')
           \<lparr>input_cost = float_mul a (float_const 5),
            output_cost = float_mul b (float_const 40),
            total_cost = float_add (float_mul a (float_const 5)) (float_mul b (float_const 40))\<rparr>
           per_image)
        report \<and>
      (text_tokens (input_tokens_details u) = 1000 \<and> output_tokens u = 2000 \<longrightarrow>
         float_mul a (float_const 5) = float_literal 5 1000 \<and>
         float_mul b (float_const 40) = float_literal 8 100 \<and>
         float_add (float_mul a (float_const 5)) (float_mul b (float_const 40)) =
           float_literal 85 1000)"
    by blast
qed


theorem generate_cost_model_witness:
  "generate_image example_world example_request initial_state =
     (fst (generate_image example_world example_request initial_state),
      Inr ([str_lit ''generated_images/generated_1700000000_1.jpg''],
      snd (projr (snd (generate_image example_world example_request initial_state))))) \<and>
   [str_lit ''generated_images/generated_1700000000_1.jpg''] \<noteq> [] \<and>
   sublist
     (cost_lines [] (str_lit ''Image'')
        \<lparr>input_cost = float_literal 5 1000, output_cost = float_literal 8 100,
         total_cost = float_literal 85 1000\<rparr> (float_literal 85 1000))
     (snd (projr (snd (generate_image example_world example_request initial_state)))) \<and>
   cost_lines [] (str_lit ''Image'')
        \<lparr>input_cost = float_literal 5 1000, output_cost = float_literal 8 100,
         total_cost = float_literal 85 1000\<rparr> (float_literal 85 1000) =
     str_lit ''- **Input Cost:** $0.0050'' @ [10] @
     str_lit ''- **Output Cost:** $0.0800'' @ [10] @
     str_lit ''- **Total Cost:** $0.0850'' @ [10] @
     str_lit ''- **Cost per Image:** $0.0850'' @ [10]"
proof -
  let ?g = "generate_image example_world example_request initial_state"
  let ?p = "[str_lit ''generated_images/generated_1700000000_1.jpg'']"
  have run: "?g = (fst ?g, Inr (?p, snd (projr (snd ?g))))"
    by (simp add: example_run)
  with generate_cost_model [of example_world example_request initial_state "fst ?g" ?p "snd (projr (snd ?g))"]
  obtain response u a b per_image where
    r: "images_generate example_world example_request = Inr response"
       "resp_usage response = Some u"
    and d: "float_div_len (float_add (float_mul a (float_const 5)) (float_mul b (float_const 40)))
        (length ?p) = Inr per_image"
    and sub: "sublist
        (cost_lines [] (str_lit ''Image'')
           \<lparr>input_cost = float_mul a (float_const 5),
            output_cost = float_mul b (float_const 40),
            total_cost = float_add (float_mul a (float_const 5)) (float_mul b (float_const 40))\<rparr>
           per_image)
        (snd (projr (snd ?g)))"
    and ex: "text_tokens (input_tokens_details u) = 1000 \<and> output_tokens u = 2000 \<longrightarrow>
         float_mul a (float_const 5) = float_literal 5 1000 \<and>
         float_mul b (float_const 40) = float_literal 8 100 \<and>
         float_add (float_mul a (float_const 5)) (float_mul b (float_const 40)) =
           float_literal 85 1000"
    by blast
  from r have "text_tokens (input_tokens_details u) = 1000 \<and> output_tokens u = 2000"
    by (auto simp: example_world_def example_response_def)
  with ex have v: "float_mul a (float_const 5) = float_literal 5 1000"
    "float_mul b (float_const 40) = float_literal 8 100"
    "float_add (float_mul a (float_const 5)) (float_mul b (float_const 40)) = float_literal 85 1000"
    by blast+
  from d v have "per_image = float_literal 85 1000"
    by (simp add: per_image_example)
  with sub v have s: "sublist
     (cost_lines [] (str_lit ''Image'')
        \<lparr>input_cost = float_literal 5 1000, output_cost = float_literal 8 100,
         total_cost = float_literal 85 1000\<rparr> (float_literal 85 1000))
     (snd (projr (snd ?g)))"
    by simp
  have t: "cost_lines [] (str_lit ''Image'')
        \<lparr>input_cost = float_literal 5 1000, output_cost = float_literal 8 100,
         total_cost = float_literal 85 1000\<rparr> (float_literal 85 1000) =
     str_lit ''- **Input Cost:** $0.0050'' @ [10] @
     str_lit ''- **Output Cost:** $0.0800'' @ [10] @
     str_lit ''- **Total Cost:** $0.0850'' @ [10] @
     str_lit ''- **Cost per Image:** $0.0850'' @ [10]"
    by (simp add: cost_lines_def fmt_0005 fmt_008 fmt_0085) (simp add: str_lit_def)
  from run s t show ?thesis by simp
qed

section \<open>The outcomes of a call\<close>

lemma generation_info_is_success:
  "success_report (generation_info w req n t u c x)"
  by (simp add: success_report_def generation_info_def str_lit_def)

lemma edit_info_is_success:
  "success_report (edit_info req k n t u c x)"
  by (simp add: success_report_def edit_info_def str_lit_def)

lemma generation_error_not_success:
  "generation_error_report r \<Longrightarrow> \<not> success_report r"
  by (auto simp: generation_error_report_def success_report_def prompt_empty_error_def
      api_key_error_def generation_failed_def str_lit_def)

lemma edit_error_not_success:
  "edit_error_report r \<Longrightarrow> \<not> success_report r"
  by (auto simp: edit_error_report_def success_report_def upload_error_def
      edit_prompt_empty_error_def api_key_error_def edit_failed_def str_lit_def)

lemma generate_image_outcomes:
  assumes "generate_image w req s = (s', Inr (paths, report))"
  shows "(\<exists>e. generate_image_try w req s = (s', Inl (ExceptionInstance e)) \<and> paths = [] \<and>
              report = generation_failed e) \<or>
         (generate_image_try w req s = (s', Inr (paths, report)) \<and>
            (paths = [] \<and> s' = s \<and> (report = prompt_empty_error \<or> report = api_key_error) \<or>
             paths \<noteq> [] \<and> success_report report \<and> set paths \<subseteq> dom (files s')))"
proof -
  obtain t r0 where tr: "generate_image_try w req s = (t, r0)"
    by (cases "generate_image_try w req s")
  show ?thesis
  proof (cases r0)
    case (Inl x)
    with assms tr obtain e where "x = ExceptionInstance e"
      and "s' = t \<and> paths = [] \<and> report = generation_failed e"
      by (cases x) (simp_all add: generate_image_def)
    with tr Inl show ?thesis by blast
  next
    case (Inr r)
    with assms tr have t: "generate_image_try w req s = (s', Inr (paths, report))"
      by (simp add: generate_image_def)
    show ?thesis
    proof (cases "paths = []")
      case True
      with generate_try_success[OF t] t show ?thesis
        by (auto dest: generate_report_success)
    next
      case False
      from generate_image_success[OF assms False] False t show ?thesis
        by (auto simp: generation_info_is_success)
    qed
  qed
qed


lemma edit_image_success:
  assumes "edit_image w req s = (s', Inr (paths, report))" and "paths \<noteq> []"
  shows "\<exists>params response outputs image_count u c created_str per_image.
           images_edit w params = Inr response \<and> resp_data response = Some outputs \<and>
           paths = map (\<lambda>j. path_join output_dir (edited_filename (resp_created response) j))
                     [0..<length outputs] \<and>
           set paths \<subseteq> dom (files s') \<and>
           remote_calls s' = remote_calls s @ [EditCall params] \<and>
           resp_usage response = Some u \<and> edit_costs u = Inr c \<and>
           strftime_local w (resp_created response) = Inr created_str \<and>
           float_div_len (total_cost c) (length paths) = Inr per_image \<and>
           report = edit_info req image_count (length paths) created_str u c per_image"
proof -
  from assms have t: "edit_image_try w req s = (s', Inr (paths, report))"
    by (auto simp: edit_image_def split: prod.splits sum.splits py_raised.splits)
  from edit_try_success[OF t] assms(2) obtain params response outputs image_count where
    r: "images_edit w params = Inr response" "resp_data response = Some outputs"
      "paths = map (\<lambda>j. path_join output_dir (edited_filename (resp_created response) j))
                     [0..<length outputs]"
      "set paths \<subseteq> dom (files s')" "remote_calls s' = remote_calls s @ [EditCall params]"
    and g: "edit_report w req image_count response paths = Inr (paths, report)"
    by blast
  from edit_report_success[OF g] r show ?thesis by blast
qed

lemma edit_image_outcomes:
  assumes "edit_image w req s = (s', Inr (paths, report))"
  shows "(\<exists>e. edit_image_try w req s = (s', Inl (ExceptionInstance e)) \<and> paths = [] \<and>
              report = edit_failed e) \<or>
         (edit_image_try w req s = (s', Inr (paths, report)) \<and>
            (paths = [] \<and> s' = s \<and>
               (report = upload_error \<or> report = edit_prompt_empty_error \<or>
                report = api_key_error) \<or>
             paths \<noteq> [] \<and> success_report report \<and> set paths \<subseteq> dom (files s')))"
proof -
  obtain t r0 where tr: "edit_image_try w req s = (t, r0)"
    by (cases "edit_image_try w req s")
  show ?thesis
  proof (cases r0)
    case (Inl x)
    with assms tr obtain e where "x = ExceptionInstance e"
      and "s' = t \<and> paths = [] \<and> report = edit_failed e"
      by (cases x) (simp_all add: edit_image_def)
    with tr Inl show ?thesis by blast
  next
    case (Inr r)
    with assms tr have t: "edit_image_try w req s = (s', Inr (paths, report))"
      by (simp add: edit_image_def)
    show ?thesis
    proof (cases "paths = []")
      case True
      with edit_try_success[OF t] t show ?thesis
        by (auto dest: edit_report_success)
    next
      case False
      from edit_image_success[OF assms False] False t show ?thesis
        by (auto simp: edit_info_is_success)
    qed
  qed
qed

text \<open>
  What leaves a tool as an exception: only something that is not an instance of
  \<^verbatim>\<open>Exception\<close>, and only the remote call raises such a thing.
\<close>

lemma generate_try_interrupted:
  assumes "generate_image_try w req s = (s', Inl (BaseExceptionOnly t m))"
  shows "images_generate w req = Inl (BaseExceptionOnly t m)"
  using assms
  by (auto simp: generate_image_try_def generate_call_def propagate_def
      split: if_splits option.splits sum.splits prod.splits)

lemma generate_image_raises:
  assumes "generate_image w req s = (s', Inl x)"
  shows "\<exists>t m. x = BaseExceptionOnly t m \<and>
           generate_image_try w req s = (s', Inl (BaseExceptionOnly t m)) \<and>
           images_generate w req = Inl (BaseExceptionOnly t m)"
proof -
  from assms obtain t m where x: "x = BaseExceptionOnly t m"
    and b: "generate_image_try w req s = (s', Inl (BaseExceptionOnly t m))"
    by (auto simp: generate_image_def split: prod.splits sum.splits py_raised.splits)
  from generate_try_interrupted[OF b] x b show ?thesis by blast
qed

lemma edit_call_interrupted:
  assumes "edit_call w req images image_count params s = (s', Inl (BaseExceptionOnly t m))"
  shows "images_edit w params = Inl (BaseExceptionOnly t m)"
  using assms
  by (auto simp: edit_call_def propagate_def split: sum.splits prod.splits)

lemma edit_with_mask_interrupted:
  assumes "edit_with_mask w req images image_count img s = (s', Inl (BaseExceptionOnly t m))"
  shows "\<exists>params. images_edit w params = Inl (BaseExceptionOnly t m)"
  using assms
  by (auto simp: edit_with_mask_def split: if_splits option.splits sum.splits prod.splits
      dest: edit_call_interrupted)

lemma edit_try_interrupted:
  assumes "edit_image_try w req s = (s', Inl (BaseExceptionOnly t m))"
  shows "\<exists>params. images_edit w params = Inl (BaseExceptionOnly t m)"
  using assms
  by (auto simp: edit_image_try_def edit_open_def
      split: if_splits option.splits sum.splits prod.splits
      dest: edit_with_mask_interrupted)

lemma edit_image_raises:
  assumes "edit_image w req s = (s', Inl x)"
  shows "\<exists>t m params. x = BaseExceptionOnly t m \<and>
           edit_image_try w req s = (s', Inl (BaseExceptionOnly t m)) \<and>
           images_edit w params = Inl (BaseExceptionOnly t m)"
proof -
  from assms obtain t m where x: "x = BaseExceptionOnly t m"
    and b: "edit_image_try w req s = (s', Inl (BaseExceptionOnly t m))"
    by (auto simp: edit_image_def split: prod.splits sum.splits py_raised.splits)
  from edit_try_interrupted[OF b] x b show ?thesis by blast
qed

text \<open>
  Claim C1, restricted to instances of \<^verbatim>\<open>Exception\<close>. Whatever the request, the
  environment and the state are, a call of either tool has one of three outcomes. The
  \<^verbatim>\<open>try\<close> body raises an instance of \<^verbatim>\<open>Exception\<close>, and the handler returns the empty
  list with the failure report built from it. Or the remote call raises something that
  is not an instance of \<^verbatim>\<open>Exception\<close>, which the handler does not catch: it leaves the
  function and reaches the caller. Or the body returns: the empty list with a validation
  message and the state untouched, or a non-empty list of paths with the success report,
  every path naming a file that the call has written. So no instance of \<^verbatim>\<open>Exception\<close>
  leaves either function.
\<close>

theorem failures_are_reported:
  "(generate_image w req s = (gs, gr) \<longrightarrow>
      (\<forall>e. gr \<noteq> Inl (ExceptionInstance e)) \<and>
      ((\<exists>e. generate_image_try w req s = (gs, Inl (ExceptionInstance e)) \<and>
            gr = Inr ([], generation_failed e)) \<or>
       (\<exists>t m. generate_image_try w req s = (gs, Inl (BaseExceptionOnly t m)) \<and>
            images_generate w req = Inl (BaseExceptionOnly t m) \<and>
            gr = Inl (BaseExceptionOnly t m)) \<or>
       (\<exists>gpaths greport.
          generate_image_try w req s = (gs, Inr (gpaths, greport)) \<and>
          gr = Inr (gpaths, greport) \<and>
          (gpaths = [] \<and> gs = s \<and>
             (greport = prompt_empty_error \<or> greport = api_key_error) \<or>
           gpaths \<noteq> [] \<and> success_report greport \<and> set gpaths \<subseteq> dom (files gs))))) \<and>
   (edit_image w ereq s = (es, er) \<longrightarrow>
      (\<forall>e. er \<noteq> Inl (ExceptionInstance e)) \<and>
      ((\<exists>e. edit_image_try w ereq s = (es, Inl (ExceptionInstance e)) \<and>
            er = Inr ([], edit_failed e)) \<or>
       (\<exists>t m params. edit_image_try w ereq s = (es, Inl (BaseExceptionOnly t m)) \<and>
            images_edit w params = Inl (BaseExceptionOnly t m) \<and>
            er = Inl (BaseExceptionOnly t m)) \<or>
       (\<exists>epaths ereport.
          edit_image_try w ereq s = (es, Inr (epaths, ereport)) \<and>
          er = Inr (epaths, ereport) \<and>
          (epaths = [] \<and> es = s \<and>
             (ereport = upload_error \<or> ereport = edit_prompt_empty_error \<or>
              ereport = api_key_error) \<or>
           epaths \<noteq> [] \<and> success_report ereport \<and> set epaths \<subseteq> dom (files es)))))"
proof (intro conjI impI)
  assume g: "generate_image w req s = (gs, gr)"
  then show "\<forall>e. gr \<noteq> Inl (ExceptionInstance e)"
    by (auto dest: generate_image_raises)
  show "(\<exists>e. generate_image_try w req s = (gs, Inl (ExceptionInstance e)) \<and>
            gr = Inr ([], generation_failed e)) \<or>
       (\<exists>t m. generate_image_try w req s = (gs, Inl (BaseExceptionOnly t m)) \<and>
            images_generate w req = Inl (BaseExceptionOnly t m) \<and>
            gr = Inl (BaseExceptionOnly t m)) \<or>
       (\<exists>gpaths greport.
          generate_image_try w req s = (gs, Inr (gpaths, greport)) \<and>
          gr = Inr (gpaths, greport) \<and>
          (gpaths = [] \<and> gs = s \<and>
             (greport = prompt_empty_error \<or> greport = api_key_error) \<or>
           gpaths \<noteq> [] \<and> success_report greport \<and> set gpaths \<subseteq> dom (files gs)))"
  proof (cases gr)
    case (Inl x)
    with generate_image_raises[of w req s gs x] g show ?thesis by blast
  next
    case (Inr r)
    obtain gpaths greport where r: "r = (gpaths, greport)" by (cases r)
    with generate_image_outcomes[of w req s gs gpaths greport] g Inr show ?thesis by blast
  qed
next
  assume e: "edit_image w ereq s = (es, er)"
  then show "\<forall>e. er \<noteq> Inl (ExceptionInstance e)"
    by (auto dest: edit_image_raises)
  show "(\<exists>e. edit_image_try w ereq s = (es, Inl (ExceptionInstance e)) \<and>
            er = Inr ([], edit_failed e)) \<or>
       (\<exists>t m params. edit_image_try w ereq s = (es, Inl (BaseExceptionOnly t m)) \<and>
            images_edit w params = Inl (BaseExceptionOnly t m) \<and>
            er = Inl (BaseExceptionOnly t m)) \<or>
       (\<exists>epaths ereport.
          edit_image_try w ereq s = (es, Inr (epaths, ereport)) \<and>
          er = Inr (epaths, ereport) \<and>
          (epaths = [] \<and> es = s \<and>
             (ereport = upload_error \<or> ereport = edit_prompt_empty_error \<or>
              ereport = api_key_error) \<or>
           epaths \<noteq> [] \<and> success_report ereport \<and> set epaths \<subseteq> dom (files es)))"
  proof (cases er)
    case (Inl x)
    with edit_image_raises[of w ereq s es x] e show ?thesis by blast
  next
    case (Inr r)
    obtain epaths ereport where r: "r = (epaths, ereport)" by (cases r)
    with edit_image_outcomes[of w ereq s es epaths ereport] e Inr show ?thesis by blast
  qed
qed

section \<open>Runs in which the remote call raises\<close>

lemma failing_world_fields:
  "config_get failing_world = config_get example_world"
  "openai_client failing_world = openai_client example_world"
  "images_generate failing_world r = Inl (ExceptionInstance rate_limit_error)"
  "images_edit failing_world p = Inl (ExceptionInstance rate_limit_error)"
  "open_rb failing_world = open_rb example_world"
  by (simp_all add: failing_world_def)

lemma failing_generate_run:
  "generate_image failing_world example_request initial_state =
   (initial_state\<lparr>remote_calls := [GenerateCall example_request]\<rparr>,
    Inr ([], generation_failed rate_limit_error))"
proof -
  have c: "openai_client example_world (str_lit ''sk-test'') = None"
    by (simp add: example_world_def)
  show ?thesis
    by (simp add: generate_image_def generate_image_try_def failing_world_fields example_prompt
        example_key generate_call_def c initial_state_def)
qed

lemma example_edit_prompt:
  "py_strip (ed_prompt example_edit_request) \<noteq> [] \<and>
   ed_image_files example_edit_request = OnePath (str_lit ''cat.png'') \<and>
   ed_mask_file example_edit_request = Some (str_lit ''mask.png'') \<and>
   mask_given (Some (str_lit ''mask.png''))"
  by (simp add: example_edit_request_def py_strip_def py_isspace_def str_lit_def mask_given_def)

lemma example_open:
  "open_stream example_world p s =
   (s\<lparr>open_streams := open_streams s @ [(next_stream s, p)], next_stream := next_stream s + 1\<rparr>,
    Inr (next_stream s, p))"
  by (simp add: open_stream_def example_world_def)

lemma failing_edit_run:
  "edit_image failing_world example_edit_request initial_state =
   (\<lparr>remote_calls =
       [EditCall (edit_parameters example_edit_request (OneStream (0, str_lit ''cat.png''))
                   (Some (1, str_lit ''mask.png'')))],
     open_streams = [(0, str_lit ''cat.png''), (1, str_lit ''mask.png'')], next_stream = 2,
     files = (\<lambda>p. None), directories = []\<rparr>,
    Inr ([], edit_failed rate_limit_error))"
proof -
  have c: "openai_client example_world (str_lit ''sk-test'') = None"
    by (simp add: example_world_def)
  have o: "open_stream failing_world = open_stream example_world"
    by (rule ext, rule ext) (simp add: open_stream_def failing_world_fields)
  show ?thesis
    by (simp add: edit_image_def edit_image_try_def failing_world_fields example_edit_prompt
        example_key edit_open_def c prepare_images_def o example_open image_argument_def
        edit_with_mask_def edit_call_def initial_state_def)
qed


text \<open>
  The classification of the outcomes at a run in which the remote service raises: both
  tools return the empty list and the failure report, after the call has been made.
\<close>

theorem failures_are_reported_witness:
  "generate_image failing_world example_request initial_state =
     (initial_state\<lparr>remote_calls := [GenerateCall example_request]\<rparr>,
      Inr ([], generation_failed rate_limit_error)) \<and>
   edit_image failing_world example_edit_request initial_state =
     (initial_state
        \<lparr>remote_calls :=
           [EditCall (edit_parameters example_edit_request (OneStream (0, str_lit ''cat.png''))
                       (Some (1, str_lit ''mask.png'')))],
         open_streams := [(0, str_lit ''cat.png''), (1, str_lit ''mask.png'')],
         next_stream := 2\<rparr>,
      Inr ([], edit_failed rate_limit_error)) \<and>
   (\<exists>e. generate_image_try failing_world example_request initial_state =
          (initial_state\<lparr>remote_calls := [GenerateCall example_request]\<rparr>,
           Inl (ExceptionInstance e))) \<and>
   (\<exists>e. edit_image_try failing_world example_edit_request initial_state =
          (initial_state
             \<lparr>remote_calls :=
                [EditCall (edit_parameters example_edit_request
                            (OneStream (0, str_lit ''cat.png''))
                            (Some (1, str_lit ''mask.png'')))],
              open_streams := [(0, str_lit ''cat.png''), (1, str_lit ''mask.png'')],
              next_stream := 2\<rparr>, Inl (ExceptionInstance e)))"
proof -
  let ?gs = "initial_state\<lparr>remote_calls := [GenerateCall example_request]\<rparr>"
  let ?es = "initial_state
        \<lparr>remote_calls :=
           [EditCall (edit_parameters example_edit_request (OneStream (0, str_lit ''cat.png''))
                       (Some (1, str_lit ''mask.png'')))],
         open_streams := [(0, str_lit ''cat.png''), (1, str_lit ''mask.png'')],
         next_stream := 2\<rparr>"
  have g: "generate_image failing_world example_request initial_state =
     (?gs, Inr ([], generation_failed rate_limit_error))"
    by (rule failing_generate_run)
  have e: "edit_image failing_world example_edit_request initial_state =
     (?es, Inr ([], edit_failed rate_limit_error))"
    using failing_edit_run by (simp add: initial_state_def)
  have ng: "?gs \<noteq> initial_state" and ne: "?es \<noteq> initial_state"
    by (simp_all add: initial_state_def)
  from failures_are_reported [of failing_world example_request initial_state ?gs
      "Inr ([], generation_failed rate_limit_error)" example_edit_request ?es
      "Inr ([], edit_failed rate_limit_error)"] g e ng ne
  show ?thesis by auto
qed

lemma interrupted_world_fields:
  "config_get interrupted_world = config_get example_world"
  "openai_client interrupted_world = openai_client example_world"
  "images_generate interrupted_world r = Inl keyboard_interrupt"
  "images_edit interrupted_world p = Inl keyboard_interrupt"
  "open_rb interrupted_world = open_rb example_world"
  by (simp_all add: interrupted_world_def)

lemma interrupted_generate_run:
  "generate_image interrupted_world example_request initial_state =
   (initial_state\<lparr>remote_calls := [GenerateCall example_request]\<rparr>, Inl keyboard_interrupt)"
proof -
  have c: "openai_client example_world (str_lit ''sk-test'') = None"
    by (simp add: example_world_def)
  show ?thesis
    by (simp add: generate_image_def generate_image_try_def interrupted_world_fields
        example_prompt example_key generate_call_def c initial_state_def keyboard_interrupt_def)
qed

lemma interrupted_edit_run:
  "edit_image interrupted_world example_edit_request initial_state =
   (\<lparr>remote_calls =
       [EditCall (edit_parameters example_edit_request (OneStream (0, str_lit ''cat.png''))
                   (Some (1, str_lit ''mask.png'')))],
     open_streams = [(0, str_lit ''cat.png''), (1, str_lit ''mask.png'')], next_stream = 2,
     files = (\<lambda>p. None), directories = []\<rparr>,
    Inl keyboard_interrupt)"
proof -
  have c: "openai_client example_world (str_lit ''sk-test'') = None"
    by (simp add: example_world_def)
  have o: "open_stream interrupted_world = open_stream example_world"
    by (rule ext, rule ext) (simp add: open_stream_def interrupted_world_fields)
  show ?thesis
    by (simp add: edit_image_def edit_image_try_def interrupted_world_fields
        example_edit_prompt example_key edit_open_def c prepare_images_def o example_open
        image_argument_def edit_with_mask_def edit_call_def initial_state_def
        keyboard_interrupt_def)
qed

text \<open>
  Claim C1 as the specification words it, that the tools never raise to the caller, does
  not hold of the code. In the run below a \<^verbatim>\<open>KeyboardInterrupt\<close> arrives while the remote
  call is waiting. It is not an instance of \<^verbatim>\<open>Exception\<close>, the clause
  \<^verbatim>\<open>except Exception\<close> lets it pass, and each tool ends with that exception instead of a
  pair of paths and report.
\<close>

theorem interrupt_reaches_the_caller_counterexample:
  "keyboard_interrupt = BaseExceptionOnly (str_lit ''KeyboardInterrupt'') [] \<and>
   images_generate interrupted_world example_request = Inl keyboard_interrupt \<and>
   snd (generate_image interrupted_world example_request initial_state) =
     Inl keyboard_interrupt \<and>
   images_edit interrupted_world
     (edit_parameters example_edit_request (OneStream (0, str_lit ''cat.png''))
        (Some (1, str_lit ''mask.png''))) = Inl keyboard_interrupt \<and>
   snd (edit_image interrupted_world example_edit_request initial_state) =
     Inl keyboard_interrupt"
  by (simp add: interrupted_generate_run interrupted_edit_run interrupted_world_fields
      keyboard_interrupt_def)

text \<open>
  Claim C9 asks that the stream of every source image and the mask stream are closed on
  every exit path of \<^verbatim>\<open>edit_image\<close>. The code closes them only in the statements that
  follow the remote call. In the run below the call raises: the tool returns the empty
  list and the failure report, and the two streams it has opened are still open.
\<close>

theorem edit_leaks_streams_when_the_call_raises:
  "images_edit failing_world
     (edit_parameters example_edit_request (OneStream (0, str_lit ''cat.png''))
        (Some (1, str_lit ''mask.png''))) = Inl (ExceptionInstance rate_limit_error) \<and>
   open_streams initial_state = [] \<and>
   snd (edit_image failing_world example_edit_request initial_state) =
     Inr ([], edit_failed rate_limit_error) \<and>
   open_streams (fst (edit_image failing_world example_edit_request initial_state)) =
     [(0, str_lit ''cat.png''), (1, str_lit ''mask.png'')]"
  using failing_edit_run by (simp add: failing_world_fields initial_state_def)

section \<open>Editing without source images\<close>

lemma example_world_client: "openai_client example_world k = None"
  by (simp add: example_world_def)

lemma index_error_is_reported:
  "edit_open w req api_key s = (s', r) \<Longrightarrow> ed_image_files req = PathList [] \<Longrightarrow>
   s' = s \<and> (\<exists>e. r = Inl (ExceptionInstance e))"
  by (auto simp: edit_open_def prepare_images_def image_argument_def split: option.splits)

text \<open>
  Claim C7. A call of \<^verbatim>\<open>edit_image\<close> with no source image returns the empty list and an
  error report without invoking the remote service: for \<^verbatim>\<open>None\<close> the first validation
  returns the upload message, and for an empty list of paths the call ends, at the latest,
  at \<^verbatim>\<open>images[0]\<close>, whose exception the handler reports. In both cases the state is
  returned as it was.
\<close>

theorem edit_without_images_rejected:
  "(ed_image_files ereq = NoFiles \<longrightarrow> edit_image w ereq s = (s, Inr ([], upload_error))) \<and>
   (ed_image_files ereq' = PathList [] \<longrightarrow>
      (\<exists>report. edit_image w ereq' s = (s, Inr ([], report)) \<and> edit_error_report report))"
proof (intro conjI impI)
  assume "ed_image_files ereq = NoFiles"
  then show "edit_image w ereq s = (s, Inr ([], upload_error))"
    by (simp add: edit_image_def edit_image_try_def)
next
  assume h: "ed_image_files ereq' = PathList []"
  obtain s' r where t: "edit_image_try w ereq' s = (s', r)"
    by (cases "edit_image_try w ereq' s")
  have "s' = s \<and> ((\<exists>e. r = Inl (ExceptionInstance e)) \<or>
          r = Inr ([], edit_prompt_empty_error) \<or> r = Inr ([], api_key_error))"
  proof (cases "py_strip (ed_prompt ereq') = [] \<or> config_get w api_key_name = None \<or>
                config_get w api_key_name = Some []")
    case True
    with t h show ?thesis
      by (auto simp: edit_image_try_def split: if_splits option.splits)
  next
    case False
    then obtain api_key where "config_get w api_key_name = Some api_key" "api_key \<noteq> []"
      "py_strip (ed_prompt ereq') \<noteq> []"
      by auto
    with t h have "edit_open w ereq' api_key s = (s', r)"
      by (simp add: edit_image_try_def)
    from index_error_is_reported[OF this h] show ?thesis by blast
  qed
  with t show "\<exists>report. edit_image w ereq' s = (s, Inr ([], report)) \<and> edit_error_report report"
    by (auto simp: edit_image_def edit_error_report_def)
qed

lemma empty_list_run:
  "edit_image example_world empty_list_edit_request initial_state =
   (initial_state,
    Inr ([], edit_failed
               (PyException (str_lit ''IndexError'') (str_lit ''list index out of range''))))"
proof -
  have p: "py_strip (ed_prompt empty_list_edit_request) \<noteq> []"
    "ed_image_files empty_list_edit_request = PathList []"
    using example_edit_prompt by (simp_all add: empty_list_edit_request_def)
  show ?thesis
    by (simp add: edit_image_def edit_image_try_def p example_key edit_open_def
        example_world_client prepare_images_def image_argument_def)
qed

theorem edit_without_images_rejected_witness:
  "ed_image_files no_files_edit_request = NoFiles \<and>
   edit_image example_world no_files_edit_request initial_state =
     (initial_state, Inr ([], upload_error)) \<and>
   ed_image_files empty_list_edit_request = PathList [] \<and>
   edit_image example_world empty_list_edit_request initial_state =
     (initial_state,
      Inr ([], edit_failed
                 (PyException (str_lit ''IndexError'') (str_lit ''list index out of range'')))) \<and>
   edit_error_report
     (edit_failed (PyException (str_lit ''IndexError'') (str_lit ''list index out of range''))) \<and>
   remote_calls (fst (edit_image example_world empty_list_edit_request initial_state)) = []"
  using edit_without_images_rejected
    [of no_files_edit_request example_world initial_state empty_list_edit_request]
    empty_list_run
  by (simp add: no_files_edit_request_def empty_list_edit_request_def initial_state_def)

section \<open>A success report comes with at least one path\<close>

lemma generation_error_iff:
  assumes "generate_image w req s = (s', Inr (paths, report))"
  shows "(paths = [] \<longrightarrow> generation_error_report report \<and> \<not> success_report report) \<and>
         (paths \<noteq> [] \<longrightarrow> success_report report)"
  using generate_image_outcomes[OF assms] generation_error_not_success[of report]
  by (auto simp: generation_error_report_def)

lemma edit_error_iff:
  assumes "edit_image w req s = (s', Inr (paths, report))"
  shows "(paths = [] \<longrightarrow> edit_error_report report \<and> \<not> success_report report) \<and>
         (paths \<noteq> [] \<longrightarrow> success_report report)"
  using edit_image_outcomes[OF assms] edit_error_not_success[of report]
  by (auto simp: edit_error_report_def)

lemma generate_zero_images:
  assumes g: "generate_image w req s = (s', Inr (paths, report))"
    and z: "\<forall>r. images_generate w req = Inr r \<longrightarrow> resp_data r = Some []"
  shows "paths = [] \<and> generation_error_report report"
proof -
  have "paths = []"
  proof (rule ccontr)
    assume ne: "paths \<noteq> []"
    from generate_image_success[OF g ne] obtain response images where
      "images_generate w req = Inr response" "resp_data response = Some images"
      "paths = map (\<lambda>j. path_join output_dir
                   (generated_filename (resp_created response)
                      (extension (req_output_format req)) j)) [0..<length images]"
      by blast
    with z ne show False by auto
  qed
  with generation_error_iff[OF g] show ?thesis by simp
qed

lemma edit_zero_images:
  assumes e: "edit_image w req s = (s', Inr (paths, report))"
    and z: "\<forall>p r. images_edit w p = Inr r \<longrightarrow> resp_data r = Some []"
  shows "paths = [] \<and> edit_error_report report"
proof -
  have "paths = []"
  proof (rule ccontr)
    assume ne: "paths \<noteq> []"
    from edit_image_success[OF e ne] obtain params response outputs where
      "images_edit w params = Inr response" "resp_data response = Some outputs"
      "paths = map (\<lambda>j. path_join output_dir (edited_filename (resp_created response) j))
                   [0..<length outputs]"
      by blast
    with z ne show False by auto
  qed
  with edit_error_iff[OF e] show ?thesis by simp
qed

lemma generate_zero_images_returns:
  assumes "\<exists>r. images_generate w req = Inr r \<and> resp_data r = Some []"
  shows "\<exists>report. snd (generate_image w req s) = Inr ([], report) \<and>
           generation_error_report report"
proof -
  obtain s' res where g: "generate_image w req s = (s', res)"
    by (cases "generate_image w req s")
  show ?thesis
  proof (cases res)
    case (Inl x)
    with generate_image_raises[of w req s s' x] g assms show ?thesis by auto
  next
    case (Inr r)
    obtain paths report where "r = (paths, report)" by (cases r)
    with g Inr have g': "generate_image w req s = (s', Inr (paths, report))" by simp
    from assms have "\<forall>r. images_generate w req = Inr r \<longrightarrow> resp_data r = Some []" by auto
    from generate_zero_images[OF g' this] g' show ?thesis by simp
  qed
qed

lemma edit_zero_images_returns:
  assumes "\<forall>p. \<exists>r. images_edit w p = Inr r \<and> resp_data r = Some []"
  shows "\<exists>report. snd (edit_image w req s) = Inr ([], report) \<and> edit_error_report report"
proof -
  obtain s' res where e: "edit_image w req s = (s', res)"
    by (cases "edit_image w req s")
  show ?thesis
  proof (cases res)
    case (Inl x)
    from edit_image_raises[of w req s s' x] e Inl obtain t m params where
      "images_edit w params = Inl (BaseExceptionOnly t m)" by blast
    with assms[rule_format, of params] show ?thesis by auto
  next
    case (Inr r)
    obtain paths report where "r = (paths, report)" by (cases r)
    with e Inr have e': "edit_image w req s = (s', Inr (paths, report))" by simp
    from assms have "\<forall>p r. images_edit w p = Inr r \<longrightarrow> resp_data r = Some []"
      by (metis sum.inject(2))
    from edit_zero_images[OF e' this] e' show ?thesis by simp
  qed
qed

text \<open>
  Claim C10. When the remote call of a tool can only return a response without images,
  the tool returns the empty list and an error report. In both tools the report is a
  success report exactly when the returned list is not empty. The reason is the cost per
  image: with an empty list of paths, and the usage, the costs and the creation time
  available, building the report raises \<^verbatim>\<open>ZeroDivisionError\<close>, which the handler reports.
  And when the remote call returns a response without images, the tool does return.
\<close>

theorem zero_images_is_an_error:
  "(generate_image w req s = (gs, Inr (gpaths, greport)) \<and>
    edit_image w ereq s = (es, Inr (epaths, ereport)) \<longrightarrow>
    ((\<forall>r. images_generate w req = Inr r \<longrightarrow> resp_data r = Some []) \<longrightarrow>
       gpaths = [] \<and> generation_error_report greport) \<and>
    ((\<forall>p r. images_edit w p = Inr r \<longrightarrow> resp_data r = Some []) \<longrightarrow>
       epaths = [] \<and> edit_error_report ereport) \<and>
    (success_report greport \<longleftrightarrow> gpaths \<noteq> []) \<and>
    (success_report ereport \<longleftrightarrow> epaths \<noteq> []) \<and>
    (resp_usage response = Some u \<and> strftime_local w (resp_created response) = Inr t \<longrightarrow>
       (generate_costs u = Inr c \<longrightarrow>
          generate_report w req response [] = Inl float_division_by_zero) \<and>
       (edit_costs u = Inr c' \<longrightarrow>
          edit_report w ereq k response [] = Inl float_division_by_zero))) \<and>
   ((\<exists>r. images_generate w req = Inr r \<and> resp_data r = Some []) \<longrightarrow>
      (\<exists>report. snd (generate_image w req s) = Inr ([], report) \<and>
         generation_error_report report)) \<and>
   ((\<forall>p. \<exists>r. images_edit w p = Inr r \<and> resp_data r = Some []) \<longrightarrow>
      (\<exists>report. snd (edit_image w ereq s) = Inr ([], report) \<and> edit_error_report report))"
proof -
  have a: "generate_image w req s = (gs, Inr (gpaths, greport)) \<and>
    edit_image w ereq s = (es, Inr (epaths, ereport)) \<longrightarrow>
    ((\<forall>r. images_generate w req = Inr r \<longrightarrow> resp_data r = Some []) \<longrightarrow>
       gpaths = [] \<and> generation_error_report greport) \<and>
    ((\<forall>p r. images_edit w p = Inr r \<longrightarrow> resp_data r = Some []) \<longrightarrow>
       epaths = [] \<and> edit_error_report ereport) \<and>
    (success_report greport \<longleftrightarrow> gpaths \<noteq> []) \<and>
    (success_report ereport \<longleftrightarrow> epaths \<noteq> []) \<and>
    (resp_usage response = Some u \<and> strftime_local w (resp_created response) = Inr t \<longrightarrow>
       (generate_costs u = Inr c \<longrightarrow>
          generate_report w req response [] = Inl float_division_by_zero) \<and>
       (edit_costs u = Inr c' \<longrightarrow>
          edit_report w ereq k response [] = Inl float_division_by_zero))"
  proof (intro impI)
    assume h: "generate_image w req s = (gs, Inr (gpaths, greport)) \<and>
               edit_image w ereq s = (es, Inr (epaths, ereport))"
    then have g: "generate_image w req s = (gs, Inr (gpaths, greport))"
      and e: "edit_image w ereq s = (es, Inr (epaths, ereport))"
      by simp_all
    note gi = generation_error_iff[OF g] and ei = edit_error_iff[OF e]
    have a: "(\<forall>r. images_generate w req = Inr r \<longrightarrow> resp_data r = Some []) \<longrightarrow>
        gpaths = [] \<and> generation_error_report greport"
      using generate_zero_images[OF g] by blast
    have b: "(\<forall>p r. images_edit w p = Inr r \<longrightarrow> resp_data r = Some []) \<longrightarrow>
        epaths = [] \<and> edit_error_report ereport"
      using edit_zero_images[OF e] by blast
    have d: "resp_usage response = Some u \<and>
        strftime_local w (resp_created response) = Inr t \<longrightarrow>
        (generate_costs u = Inr c \<longrightarrow>
           generate_report w req response [] = Inl float_division_by_zero) \<and>
        (edit_costs u = Inr c' \<longrightarrow>
           edit_report w ereq k response [] = Inl float_division_by_zero)"
      by (simp add: generate_report_def edit_report_def float_div_len_zero)
    from a b d gi ei
    show "((\<forall>r. images_generate w req = Inr r \<longrightarrow> resp_data r = Some []) \<longrightarrow>
       gpaths = [] \<and> generation_error_report greport) \<and>
    ((\<forall>p r. images_edit w p = Inr r \<longrightarrow> resp_data r = Some []) \<longrightarrow>
       epaths = [] \<and> edit_error_report ereport) \<and>
    (success_report greport \<longleftrightarrow> gpaths \<noteq> []) \<and>
    (success_report ereport \<longleftrightarrow> epaths \<noteq> []) \<and>
    (resp_usage response = Some u \<and> strftime_local w (resp_created response) = Inr t \<longrightarrow>
       (generate_costs u = Inr c \<longrightarrow>
          generate_report w req response [] = Inl float_division_by_zero) \<and>
       (edit_costs u = Inr c' \<longrightarrow>
          edit_report w ereq k response [] = Inl float_division_by_zero))"
      by blast
  qed
  have b: "(\<exists>r. images_generate w req = Inr r \<and> resp_data r = Some []) \<longrightarrow>
      (\<exists>report. snd (generate_image w req s) = Inr ([], report) \<and>
         generation_error_report report)"
    using generate_zero_images_returns[of w req s] by blast
  have c: "(\<forall>p. \<exists>r. images_edit w p = Inr r \<and> resp_data r = Some []) \<longrightarrow>
      (\<exists>report. snd (edit_image w ereq s) = Inr ([], report) \<and> edit_error_report report)"
    using edit_zero_images_returns[of w ereq s] by blast
  show ?thesis by (rule conjI[OF a conjI[OF b c]])
qed


lemma no_image_world_fields:
  "config_get no_image_world = config_get example_world"
  "openai_client no_image_world = openai_client example_world"
  "images_generate no_image_world r = Inr no_image_response"
  "images_edit no_image_world p = Inr no_image_edit_response"
  "open_rb no_image_world = open_rb example_world"
  "makedirs no_image_world d = None"
  "strftime_local no_image_world x = Inr (str_lit ''2023-11-14 22:13:20'')"
  by (simp_all add: no_image_world_def example_world_def)

lemma no_image_usage:
  "resp_data no_image_response = Some []"
  "resp_data no_image_edit_response = Some []"
  "resp_usage no_image_response =
     Some \<lparr>input_tokens_details = \<lparr>text_tokens = 1000, image_tokens = 0\<rparr>,
           output_tokens = 2000, total_tokens = 3000\<rparr>"
  "resp_usage no_image_edit_response =
     Some \<lparr>input_tokens_details = \<lparr>text_tokens = 1000, image_tokens = 500\<rparr>,
           output_tokens = 2000, total_tokens = 3500\<rparr>"
  by (simp_all add: no_image_response_def no_image_edit_response_def example_response_def
      example_edit_response_def)

lemma no_image_generate_run:
  "generate_image no_image_world example_request initial_state =
   (initial_state\<lparr>remote_calls := [GenerateCall example_request],
                   directories := [output_dir]\<rparr>,
    Inr ([], generation_failed float_division_by_zero))"
  by (simp add: generate_image_def generate_image_try_def no_image_world_fields example_prompt
      example_key generate_call_def example_world_client generate_store_def save_all_def
      no_image_usage generate_report_def example_costs float_div_len_zero initial_state_def)

lemma no_image_edit_run:
  "edit_image no_image_world example_edit_request initial_state =
   (initial_state
      \<lparr>remote_calls :=
         [EditCall (edit_parameters example_edit_request (OneStream (0, str_lit ''cat.png''))
                     (Some (1, str_lit ''mask.png'')))],
       next_stream := 2, directories := [output_dir]\<rparr>,
    Inr ([], edit_failed float_division_by_zero))"
proof -
  have o: "open_stream no_image_world = open_stream example_world"
    by (rule ext, rule ext) (simp add: open_stream_def no_image_world_fields)
  show ?thesis
    by (simp add: edit_image_def edit_image_try_def no_image_world_fields example_edit_prompt
        example_key edit_open_def example_world_client prepare_images_def o example_open
        image_argument_def edit_with_mask_def edit_call_def edit_parameters_def close_all_def
        close_mask_def close_stream_def edit_store_def save_all_def no_image_usage
        edit_report_def example_edit_costs float_div_len_zero initial_state_def)
qed

theorem zero_images_is_an_error_witness:
  "generate_image no_image_world example_request initial_state =
     (initial_state\<lparr>remote_calls := [GenerateCall example_request],
                     directories := [output_dir]\<rparr>,
      Inr ([], generation_failed float_division_by_zero)) \<and>
   edit_image no_image_world example_edit_request initial_state =
     (initial_state
        \<lparr>remote_calls :=
           [EditCall (edit_parameters example_edit_request (OneStream (0, str_lit ''cat.png''))
                       (Some (1, str_lit ''mask.png'')))],
         next_stream := 2, directories := [output_dir]\<rparr>,
      Inr ([], edit_failed float_division_by_zero)) \<and>
   images_generate no_image_world example_request = Inr no_image_response \<and>
   resp_data no_image_response = Some [] \<and>
   images_edit no_image_world
     (edit_parameters example_edit_request (OneStream (0, str_lit ''cat.png''))
        (Some (1, str_lit ''mask.png''))) = Inr no_image_edit_response \<and>
   resp_data no_image_edit_response = Some [] \<and>
   generation_error_report (generation_failed float_division_by_zero) \<and>
   edit_error_report (edit_failed float_division_by_zero) \<and>
   \<not> success_report (generation_failed float_division_by_zero) \<and>
   \<not> success_report (edit_failed float_division_by_zero) \<and>
   generate_report no_image_world example_request no_image_edit_response [] =
     Inl float_division_by_zero \<and>
   edit_report no_image_world example_edit_request 1 no_image_edit_response [] =
     Inl float_division_by_zero"
proof -
  let ?u = "\<lparr>input_tokens_details = \<lparr>text_tokens = 1000, image_tokens = 500\<rparr>,
           output_tokens = 2000, total_tokens = 3500\<rparr>"
  have z: "\<forall>r. images_generate no_image_world example_request = Inr r \<longrightarrow> resp_data r = Some []"
    "\<forall>p r. images_edit no_image_world p = Inr r \<longrightarrow> resp_data r = Some []"
    by (auto simp: no_image_world_fields no_image_usage)
  have c: "generate_costs ?u =
     Inr \<lparr>input_cost = float_literal 5 1000, output_cost = float_literal 8 100,
          total_cost = float_literal 85 1000\<rparr>"
    "edit_costs ?u =
     Inr \<lparr>input_cost = float_literal 10 1000, output_cost = float_literal 8 100,
          total_cost = float_literal 9 100\<rparr>"
    by (simp_all add: example_costs example_edit_costs)
  from zero_images_is_an_error
    [of no_image_world example_request initial_state _ "[]" _ example_edit_request _ "[]" _
       no_image_edit_response ?u "str_lit ''2023-11-14 22:13:20''" _ _ 1]
    no_image_generate_run no_image_edit_run z c
  show ?thesis
    by (simp add: no_image_usage no_image_world_fields)
qed

section \<open>Names of the saved files\<close>

lemma generated_path:
  "path_join output_dir (generated_filename t ext i) =
   str_lit ''generated_images/generated_'' @ str_int t @ str_lit ''_'' @ str_nat (i + 1) @
   str_lit ''.'' @ ext"
  by (simp add: path_join_def output_dir_def generated_filename_def str_lit_def)

lemma edited_path:
  "path_join output_dir (edited_filename t i) =
   str_lit ''generated_images/edited_'' @ str_int t @ str_lit ''_'' @ str_nat (i + 1) @
   str_lit ''.png''"
  by (simp add: path_join_def output_dir_def edited_filename_def str_lit_def)

text \<open>
  Claim C8. On success, the paths returned by \<^verbatim>\<open>generate_image\<close> are, in order,
  \<^verbatim>\<open>generated_images/generated_{timestamp}_{n}.{ext}\<close> for \<open>n\<close> from 1 on, where the
  timestamp is the field \<^verbatim>\<open>created\<close> of the response and \<open>ext\<close> is \<^verbatim>\<open>jpg\<close> for the format
  \<^verbatim>\<open>jpeg\<close> and the format name otherwise; the paths returned by \<^verbatim>\<open>edit_image\<close> are
  \<^verbatim>\<open>generated_images/edited_{timestamp}_{n}.png\<close>, whatever the parameters are. The path
  separator is that of \<^verbatim>\<open>posixpath\<close>.
\<close>

theorem saved_file_names:
  "(generate_image w req s = (gs, Inr (gpaths, greport)) \<and> gpaths \<noteq> [] \<longrightarrow>
      (\<exists>response. images_generate w req = Inr response \<and>
         gpaths = map (\<lambda>i. str_lit ''generated_images/generated_'' @
                           str_int (resp_created response) @ str_lit ''_'' @ str_nat (i + 1) @
                           str_lit ''.'' @
                           (if req_output_format req = str_lit ''jpeg'' then str_lit ''jpg''
                            else req_output_format req))
                    [0..<length gpaths])) \<and>
   (edit_image w ereq s = (es, Inr (epaths, ereport)) \<and> epaths \<noteq> [] \<longrightarrow>
      (\<exists>params response. images_edit w params = Inr response \<and>
         epaths = map (\<lambda>i. str_lit ''generated_images/edited_'' @
                           str_int (resp_created response) @ str_lit ''_'' @ str_nat (i + 1) @
                           str_lit ''.png'')
                    [0..<length epaths]))"
proof (intro conjI impI)
  assume "generate_image w req s = (gs, Inr (gpaths, greport)) \<and> gpaths \<noteq> []"
  then have g: "generate_image w req s = (gs, Inr (gpaths, greport))" and ne: "gpaths \<noteq> []"
    by simp_all
  from generate_image_success[OF g ne] obtain response images where
    r: "images_generate w req = Inr response" "resp_data response = Some images"
    and p: "gpaths = map (\<lambda>j. path_join output_dir
                     (generated_filename (resp_created response)
                        (extension (req_output_format req)) j)) [0..<length images]"
    by blast
  from p have l: "length gpaths = length images" by simp
  from p l have "gpaths = map (\<lambda>i. str_lit ''generated_images/generated_'' @
                           str_int (resp_created response) @ str_lit ''_'' @ str_nat (i + 1) @
                           str_lit ''.'' @
                           (if req_output_format req = str_lit ''jpeg'' then str_lit ''jpg''
                            else req_output_format req))
                    [0..<length gpaths]"
    by (simp add: generated_path extension_def)
  with r show "\<exists>response. images_generate w req = Inr response \<and>
         gpaths = map (\<lambda>i. str_lit ''generated_images/generated_'' @
                           str_int (resp_created response) @ str_lit ''_'' @ str_nat (i + 1) @
                           str_lit ''.'' @
                           (if req_output_format req = str_lit ''jpeg'' then str_lit ''jpg''
                            else req_output_format req))
                    [0..<length gpaths]"
    by blast
next
  assume "edit_image w ereq s = (es, Inr (epaths, ereport)) \<and> epaths \<noteq> []"
  then have e: "edit_image w ereq s = (es, Inr (epaths, ereport))" and ne: "epaths \<noteq> []"
    by simp_all
  from edit_image_success[OF e ne] obtain params response outputs where
    r: "images_edit w params = Inr response" "resp_data response = Some outputs"
    and p: "epaths = map (\<lambda>j. path_join output_dir (edited_filename (resp_created response) j))
                     [0..<length outputs]"
    by blast
  from p have l: "length epaths = length outputs" by simp
  from p l have "epaths = map (\<lambda>i. str_lit ''generated_images/edited_'' @
                           str_int (resp_created response) @ str_lit ''_'' @ str_nat (i + 1) @
                           str_lit ''.png'')
                    [0..<length epaths]"
    by (simp add: edited_path)
  with r show "\<exists>params response. images_edit w params = Inr response \<and>
         epaths = map (\<lambda>i. str_lit ''generated_images/edited_'' @
                           str_int (resp_created response) @ str_lit ''_'' @ str_nat (i + 1) @
                           str_lit ''.png'')
                    [0..<length epaths]"
    by blast
qed


lemma example_edit_paths:
  "path_join output_dir (edited_filename 1700000000 0) =
     str_lit ''generated_images/edited_1700000000_1.png''"
  "path_join output_dir (edited_filename 1700000000 (Suc 0)) =
     str_lit ''generated_images/edited_1700000000_2.png''"
  by (simp_all add: path_join_def output_dir_def edited_filename_def str_lit_def
      str_int_def str_nat_digit str_nat_more)

lemma example_edit_save:
  "save_all example_world (edited_filename 1700000000) example_edit_response s =
   (s\<lparr>directories := output_dir # directories s,
       files := (files s)
         (str_lit ''generated_images/edited_1700000000_1.png'' \<mapsto> [65],
          str_lit ''generated_images/edited_1700000000_2.png'' \<mapsto> [66])\<rparr>,
    Inr [str_lit ''generated_images/edited_1700000000_1.png'',
         str_lit ''generated_images/edited_1700000000_2.png''])"
proof -
  have d: "b64decode example_world (str_lit ''QQ=='') = Inr [65]"
    "b64decode example_world (str_lit ''Qg=='') = Inr [66]"
    by (simp_all add: example_world_def str_lit_def)
  have o: "open_wb example_world p = None" "write_bytes example_world p b = None"
    "makedirs example_world q = None" for p b q
    by (simp_all add: example_world_def)
  show ?thesis
    by (simp add: save_all_def example_edit_response_def decode_image_def d o
        write_file_def example_edit_paths)
qed

lemma const_two_suc: "float_const (Suc (Suc 0)) = Finite False 4503599627370496 (- 51)"
  using const_two by (simp add: numeral_2_eq_2)

lemma per_image_edit_suc:
  "float_div_len (float_literal 9 100) (Suc (Suc 0)) = Inr (float_literal 45 1000)"
  by (simp add: float_div_len_def const_two_suc lit_009 lit_0045 div_by_two)

lemma example_edit_report:
  "edit_report example_world example_edit_request k example_edit_response [p, q] =
   Inr ([p, q], edit_info example_edit_request k 2 (str_lit ''2023-11-14 22:13:20'')
      \<lparr>input_tokens_details = \<lparr>text_tokens = 1000, image_tokens = 500\<rparr>,
        output_tokens = 2000, total_tokens = 3500\<rparr>
      \<lparr>input_cost = float_literal 10 1000, output_cost = float_literal 8 100,
        total_cost = float_literal 9 100\<rparr> (float_literal 45 1000))"
proof -
  have t: "strftime_local example_world x = Inr (str_lit ''2023-11-14 22:13:20'')" for x
    by (simp add: example_world_def)
  show ?thesis
    by (simp add: edit_report_def example_edit_response_def example_edit_costs t
        per_image_edit_suc numeral_2_eq_2)
qed

lemma example_edit_run:
  "edit_image example_world example_edit_request initial_state =
   (initial_state
      \<lparr>remote_calls :=
         [EditCall (edit_parameters example_edit_request (OneStream (0, str_lit ''cat.png''))
                     (Some (1, str_lit ''mask.png'')))],
       next_stream := 2, directories := [output_dir],
       files := [str_lit ''generated_images/edited_1700000000_1.png'' \<mapsto> [65],
                 str_lit ''generated_images/edited_1700000000_2.png'' \<mapsto> [66]]\<rparr>,
    Inr ([str_lit ''generated_images/edited_1700000000_1.png'',
          str_lit ''generated_images/edited_1700000000_2.png''],
      edit_info example_edit_request 1 2 (str_lit ''2023-11-14 22:13:20'')
        \<lparr>input_tokens_details = \<lparr>text_tokens = 1000, image_tokens = 500\<rparr>,
          output_tokens = 2000, total_tokens = 3500\<rparr>
        \<lparr>input_cost = float_literal 10 1000, output_cost = float_literal 8 100,
          total_cost = float_literal 9 100\<rparr> (float_literal 45 1000)))"
proof -
  have e: "images_edit example_world p = Inr example_edit_response" for p
    by (simp add: example_world_def)
  have c: "resp_created example_edit_response = 1700000000"
    by (simp add: example_edit_response_def)
  show ?thesis
    by (simp add: edit_image_def edit_image_try_def example_edit_prompt
        example_key edit_open_def example_world_client prepare_images_def example_open
        image_argument_def edit_with_mask_def edit_call_def e c edit_parameters_def close_all_def
        close_mask_def close_stream_def edit_store_def example_edit_save example_edit_report
        initial_state_def)
qed


theorem saved_file_names_witness:
  "generate_image example_world example_request initial_state =
     (fst (generate_image example_world example_request initial_state),
      Inr ([str_lit ''generated_images/generated_1700000000_1.jpg''],
      snd (projr (snd (generate_image example_world example_request initial_state))))) \<and>
   edit_image example_world example_edit_request initial_state =
     (fst (edit_image example_world example_edit_request initial_state),
      Inr ([str_lit ''generated_images/edited_1700000000_1.png'',
       str_lit ''generated_images/edited_1700000000_2.png''],
      snd (projr (snd (edit_image example_world example_edit_request initial_state))))) \<and>
   [str_lit ''generated_images/generated_1700000000_1.jpg''] =
     map (\<lambda>i. str_lit ''generated_images/generated_'' @ str_int 1700000000 @ str_lit ''_'' @
               str_nat (i + 1) @ str_lit ''.'' @ str_lit ''jpg'') [0..<1] \<and>
   [str_lit ''generated_images/edited_1700000000_1.png'',
    str_lit ''generated_images/edited_1700000000_2.png''] =
     map (\<lambda>i. str_lit ''generated_images/edited_'' @ str_int 1700000000 @ str_lit ''_'' @
               str_nat (i + 1) @ str_lit ''.png'') [0..<2]"
proof -
  let ?g = "generate_image example_world example_request initial_state"
  let ?e = "edit_image example_world example_edit_request initial_state"
  let ?gp = "[str_lit ''generated_images/generated_1700000000_1.jpg'']"
  let ?ep = "[str_lit ''generated_images/edited_1700000000_1.png'',
              str_lit ''generated_images/edited_1700000000_2.png'']"
  have g: "?g = (fst ?g, Inr (?gp, snd (projr (snd ?g)))) \<and> ?gp \<noteq> []"
    by (simp add: example_run)
  have e: "?e = (fst ?e, Inr (?ep, snd (projr (snd ?e)))) \<and> ?ep \<noteq> []"
    by (simp add: example_edit_run)
  have f: "req_output_format example_request = str_lit ''jpeg''"
    by (simp add: example_request_def)
  note t = saved_file_names [of example_world example_request initial_state "fst ?g" ?gp
      "snd (projr (snd ?g))" example_edit_request "fst ?e" ?ep "snd (projr (snd ?e))"]
  note cg = mp [OF conjunct1 [OF t] g]
  note ce = mp [OF conjunct2 [OF t] e]
  from cg obtain response where
    r: "images_generate example_world example_request = Inr response"
    and gp: "?gp = map (\<lambda>i. str_lit ''generated_images/generated_'' @
                           str_int (resp_created response) @ str_lit ''_'' @ str_nat (i + 1) @
                           str_lit ''.'' @
                           (if req_output_format example_request = str_lit ''jpeg''
                            then str_lit ''jpg'' else req_output_format example_request))
                    [0..<length ?gp]"
    by (elim exE conjE)
  from r have "resp_created response = 1700000000"
    by (auto simp: example_world_def example_response_def)
  with gp f have 1: "?gp =
     map (\<lambda>i. str_lit ''generated_images/generated_'' @ str_int 1700000000 @ str_lit ''_'' @
               str_nat (i + 1) @ str_lit ''.'' @ str_lit ''jpg'') [0..<1]"
    by simp
  from ce obtain params response' where
    r': "images_edit example_world params = Inr response'"
    and ep: "?ep = map (\<lambda>i. str_lit ''generated_images/edited_'' @
                           str_int (resp_created response') @ str_lit ''_'' @ str_nat (i + 1) @
                           str_lit ''.png'')
                    [0..<length ?ep]"
    by (elim exE conjE)
  from r' have "resp_created response' = 1700000000"
    by (auto simp: example_world_def example_edit_response_def)
  with ep have 2: "?ep =
     map (\<lambda>i. str_lit ''generated_images/edited_'' @ str_int 1700000000 @ str_lit ''_'' @
               str_nat (i + 1) @ str_lit ''.png'') [0..<2]"
    by (simp add: numeral_2_eq_2)
  from g e 1 2 show ?thesis by (intro conjI) (rule conjunct1, assumption)+
qed

section \<open>Costs of \<^verbatim>\<open>edit_image\<close>\<close>






section \<open>What the report echoes\<close>

lemmas comma_eval =
  format_comma_def comma_groups_short comma_groups_long str_nat_digit str_nat_more str_lit_def

lemma example_token_texts:
  "format_comma 1000 = str_lit ''1,000''"
  "format_comma 0 = str_lit ''0''"
  "format_comma 2000 = str_lit ''2,000''"
  "format_comma 3000 = str_lit ''3,000''"
  by (simp_all add: comma_eval)

lemma example_upper:
  "py_upper (unicode_upper example_world) (str_lit ''jpeg'') = str_lit ''JPEG''"
  by (simp add: py_upper_def upper_cp_def str_lit_def)

lemma example_request_fields:
  "req_prompt example_request = str_lit ''A cat''"
  "req_background example_request = str_lit ''auto''"
  "req_model example_request = str_lit ''gpt-image-1''"
  "req_moderation example_request = str_lit ''low''"
  "req_n example_request = 1"
  "req_output_compression example_request = 85"
  "req_output_format example_request = str_lit ''jpeg''"
  "req_quality example_request = str_lit ''medium''"
  "req_size example_request = str_lit ''auto''"
  by (simp_all add: example_request_def)

lemma example_report_text:
  "generation_info example_world example_request 1 (str_lit ''2023-11-14 22:13:20'')
      \<lparr>input_tokens_details = \<lparr>text_tokens = 1000, image_tokens = 0\<rparr>,
        output_tokens = 2000, total_tokens = 3000\<rparr>
      \<lparr>input_cost = float_literal 5 1000, output_cost = float_literal 8 100,
        total_cost = float_literal 85 1000\<rparr> (float_literal 85 1000) =
   concat
     [str_lit ''## '', [9989], str_lit '' Images Generated Successfully!'', [10],
      [10],
      str_lit ''### '', [128202], str_lit '' Generation Details'', [10],
      str_lit ''- **Model:** gpt-image-1'', [10],
      str_lit ''- **Images Created:** 1'', [10],
      str_lit ''- **Quality:** medium'', [10],
      str_lit ''- **Size:** auto '', [10],
      str_lit ''- **Format:** JPEG'', [10],
      str_lit ''- **Background:** auto'', [10],
      str_lit ''- **Compression:** 85%'', [10],
      str_lit ''- **Created:** 2023-11-14 22:13:20'', [10],
      [10],
      str_lit ''### '', [128290], str_lit '' Token Usage'', [10],
      str_lit ''- **Text Tokens:** 1,000'', [10],
      str_lit ''- **Image Tokens:** 0'', [10],
      str_lit ''- **Output Tokens:** 2,000'', [10],
      str_lit ''- **Total Tokens:** 3,000'', [10],
      [10],
      str_lit ''### '', [128176], str_lit '' Cost Breakdown'', [10],
      str_lit ''- **Input Cost:** $0.0050'', [10],
      str_lit ''- **Output Cost:** $0.0800'', [10],
      str_lit ''- **Total Cost:** $0.0850'', [10],
      str_lit ''- **Cost per Image:** $0.0850'', [10],
      [10],
      str_lit ''### '', [128221], str_lit '' Prompt'', [10],
      [34], str_lit ''A cat'', [34], [10]]"
  by (simp add: generation_info_def token_lines_def cost_lines_def example_request_fields
      example_token_texts example_upper fmt_0005 fmt_008 fmt_0085 prompt_echo_def str_int_def
      str_nat_digit str_nat_more)
     (simp add: str_lit_def)


lemma example_report_has_no_j:
  "106 \<notin> set (generation_info example_world example_request 1 (str_lit ''2023-11-14 22:13:20'')
      \<lparr>input_tokens_details = \<lparr>text_tokens = 1000, image_tokens = 0\<rparr>,
        output_tokens = 2000, total_tokens = 3000\<rparr>
      \<lparr>input_cost = float_literal 5 1000, output_cost = float_literal 8 100,
        total_cost = float_literal 85 1000\<rparr> (float_literal 85 1000))"
  unfolding example_report_text by (simp add: str_lit_def)

lemma example_request_valid: "valid_generation_request example_request"
  unfolding valid_generation_request_def example_request_fields
  by (simp add: py_strip_def py_isspace_def str_lit_def)

text \<open>
  The example request is a valid GenerationRequest with the output format \<^verbatim>\<open>jpeg\<close>, and
  the call succeeds with one path for the one image requested. Its report does not
  contain \<^verbatim>\<open>jpeg\<close>: the format line shows \<^verbatim>\<open>output_format.upper()\<close>, and no other part of
  this report has a lower-case \<^verbatim>\<open>j\<close>.
\<close>

theorem report_format_verbatim_counterexample:
  "valid_generation_request example_request \<and>
   fst (projr (snd (generate_image example_world example_request initial_state))) =
     [str_lit ''generated_images/generated_1700000000_1.jpg''] \<and>
   int (length (fst (projr (snd (generate_image example_world example_request initial_state))))) =
     req_n example_request \<and>
   success_report (snd (projr (snd (generate_image example_world example_request initial_state)))) \<and>
   req_output_format example_request = str_lit ''jpeg'' \<and>
   \<not> sublist (req_output_format example_request)
       (snd (projr (snd (generate_image example_world example_request initial_state))))"
proof -
  let ?r = "snd (projr (snd (generate_image example_world example_request initial_state)))"
  have "sublist (str_lit ''jpeg'') ?r \<Longrightarrow> 106 \<in> set ?r"
  proof -
    assume "sublist (str_lit ''jpeg'') ?r"
    then have "set (str_lit ''jpeg'') \<subseteq> set ?r"
      by (rule set_mono_sublist)
    then show "106 \<in> set ?r"
      by (simp add: str_lit_def)
  qed
  moreover have "106 \<notin> set ?r"
    using example_report_has_no_j by (simp add: example_run)
  ultimately have "\<not> sublist (str_lit ''jpeg'') ?r"
    by blast
  then show ?thesis
    by (simp add: example_request_valid example_run example_request_fields
        generation_info_is_success)
qed


text \<open>
  Claim C2, as the code has it. A successful call of \<^verbatim>\<open>generate_image\<close> returns one path
  for every image of the response, so as many paths as images requested whenever the
  remote service returns that many, and its report contains the requested quality and
  the requested size character for character, and the requested output format in upper
  case.
\<close>

theorem report_echoes_request:
  "generate_image w req s = (s', Inr (paths, report)) \<and> paths \<noteq> [] \<longrightarrow>
     (\<exists>response images.
        images_generate w req = Inr response \<and> resp_data response = Some images \<and>
        length paths = length images) \<and>
     sublist (req_quality req) report \<and> sublist (req_size req) report \<and>
     sublist (py_upper (unicode_upper w) (req_output_format req)) report"
proof (intro impI)
  assume "generate_image w req s = (s', Inr (paths, report)) \<and> paths \<noteq> []"
  then have g: "generate_image w req s = (s', Inr (paths, report))" and ne: "paths \<noteq> []"
    by simp_all
  from generate_image_success[OF g ne] obtain response images u c created_str per_image where
    r: "images_generate w req = Inr response" "resp_data response = Some images"
    and p: "paths = map (\<lambda>j. path_join output_dir
                     (generated_filename (resp_created response)
                        (extension (req_output_format req)) j)) [0..<length images]"
    and rep: "report = generation_info w req (length paths) created_str u c per_image"
    by blast
  from p have l: "length paths = length images" by simp
  have q: "sublist (req_quality req) report"
    unfolding rep generation_info_def by (rule sublist_concat) simp
  have z: "sublist (req_size req) report"
    unfolding rep generation_info_def by (rule sublist_concat) simp
  have f: "sublist (py_upper (unicode_upper w) (req_output_format req)) report"
    unfolding rep generation_info_def by (rule sublist_concat) simp
  from r l q z f show "(\<exists>response images.
        images_generate w req = Inr response \<and> resp_data response = Some images \<and>
        length paths = length images) \<and>
     sublist (req_quality req) report \<and> sublist (req_size req) report \<and>
     sublist (py_upper (unicode_upper w) (req_output_format req)) report"
    by blast
qed

theorem report_echoes_request_witness:
  "generate_image example_world example_request initial_state =
     (fst (generate_image example_world example_request initial_state),
      Inr ([str_lit ''generated_images/generated_1700000000_1.jpg''],
      snd (projr (snd (generate_image example_world example_request initial_state))))) \<and>
   [str_lit ''generated_images/generated_1700000000_1.jpg''] \<noteq> [] \<and>
   sublist (str_lit ''medium'')
     (snd (projr (snd (generate_image example_world example_request initial_state)))) \<and>
   sublist (str_lit ''auto'')
     (snd (projr (snd (generate_image example_world example_request initial_state)))) \<and>
   sublist (str_lit ''JPEG'')
     (snd (projr (snd (generate_image example_world example_request initial_state))))"
proof -
  let ?g = "generate_image example_world example_request initial_state"
  let ?p = "[str_lit ''generated_images/generated_1700000000_1.jpg'']"
  have run: "?g = (fst ?g, Inr (?p, snd (projr (snd ?g)))) \<and> ?p \<noteq> []"
    by (simp add: example_run)
  note t = mp [OF report_echoes_request [of example_world example_request initial_state
        "fst ?g" ?p "snd (projr (snd ?g))"] run]
  from t have q: "sublist (req_quality example_request) (snd (projr (snd ?g)))"
    and z: "sublist (req_size example_request) (snd (projr (snd ?g)))"
    and f: "sublist (py_upper (unicode_upper example_world) (req_output_format example_request))
              (snd (projr (snd ?g)))"
    by blast+
  from q have q': "sublist (str_lit ''medium'') (snd (projr (snd ?g)))"
    by (simp only: example_request_fields)
  from z have z': "sublist (str_lit ''auto'') (snd (projr (snd ?g)))"
    by (simp only: example_request_fields)
  from f have f': "sublist (str_lit ''JPEG'') (snd (projr (snd ?g)))"
    by (simp only: example_request_fields example_upper)
  from run have r1: "?g = (fst ?g, Inr (?p, snd (projr (snd ?g))))" and r2: "?p \<noteq> []"
    by blast+
  from r1 r2 q' z' f' show ?thesis
    by (intro conjI)
qed

end
